theory Spec2Isabelle
  imports Complex_Main
begin

section \<open>Strings, numbers and host functions\<close>

text \<open>
  A JavaScript string is a sequence of code units; the model uses \<^typ>\<open>string\<close> and reads a
  \<^typ>\<open>char\<close> as a code unit of the Latin-1 range (0 to 255, which holds the Portuguese
  letters). A field of type \<open>string | null\<close> is a \<^typ>\<open>string option\<close>; in a condition,
  \<open>null\<close> and the empty string are both falsy.

  A JavaScript number is an IEEE 754 double. The model writes a number as a \<^typ>\<open>real\<close>,
  the decimal of the JSON text or a double itself, and the comparisons with a tolerance
  (\<open>Math.abs(a - b) < 0.05\<close>) read their operands and their result through \<open>toDouble\<close>,
  the rounding to the nearest double. Infinities, \<open>NaN\<close> and magnitudes beyond the range of
  the doubles are outside the model, and the running total of the quantities of a group is
  kept as the exact sum.
\<close>

definition truthy :: "string option \<Rightarrow> bool" where
  "truthy s = (case s of None \<Rightarrow> False | Some t \<Rightarrow> t \<noteq> [])"

text \<open>\<open>a || b\<close> on two nullable strings.\<close>

definition js_or :: "string option \<Rightarrow> string option \<Rightarrow> string option" where
  "js_or a b = (if truthy a then a else b)"

definition isDigit :: "char \<Rightarrow> bool" where
  "isDigit c = (let n = (of_char c :: nat) in 48 \<le> n \<and> n \<le> 57)"

definition isAsciiLetter :: "char \<Rightarrow> bool" where
  "isAsciiLetter c = (let n = (of_char c :: nat) in
     (65 \<le> n \<and> n \<le> 90) \<or> (97 \<le> n \<and> n \<le> 122))"

text \<open>The letters that \<open>toLowerCase\<close> changes in the Latin-1 range: A to Z, and 0xC0 to 0xDE
  without the multiplication sign 0xD7. Their lower-case form is 32 above, that is, bit 5 set.\<close>

definition isUpper :: "char \<Rightarrow> bool" where
  "isUpper c = (let n = (of_char c :: nat) in
     (65 \<le> n \<and> n \<le> 90) \<or> (192 \<le> n \<and> n \<le> 222 \<and> n \<noteq> 215))"

fun setBit5 :: "char \<Rightarrow> char" where
  "setBit5 (Char b0 b1 b2 b3 b4 b5 b6 b7) = Char b0 b1 b2 b3 b4 True b6 b7"

definition toLowerChar :: "char \<Rightarrow> char" where
  "toLowerChar c = (if isUpper c then setBit5 c else c)"

definition toLowerCase :: "string \<Rightarrow> string" where
  "toLowerCase s = map toLowerChar s"

text \<open>\<open>s.replace(/\D/g, '')\<close>\<close>

definition stripNonDigits :: "string \<Rightarrow> string" where
  "stripNonDigits s = filter isDigit s"

text \<open>\<open>s.split(d)\<close> for a one-character separator: consecutive separators give empty
  pieces, and the empty string gives one empty piece.\<close>

fun split_on :: "char \<Rightarrow> string \<Rightarrow> string list" where
  "split_on d [] = [[]]"
| "split_on d (c # cs) =
     (if c = d then [] # split_on d cs
      else (case split_on d cs of [] \<Rightarrow> [[c]] | w # ws \<Rightarrow> (c # w) # ws))"

text \<open>\<open>s.includes(t)\<close>: \<open>t\<close> occurs in \<open>s\<close> as a contiguous run.\<close>

fun startsWith :: "string \<Rightarrow> string \<Rightarrow> bool" where
  "startsWith s [] = True"
| "startsWith [] (t # ts) = False"
| "startsWith (c # cs) (t # ts) = (c = t \<and> startsWith cs ts)"

fun str_includes :: "string \<Rightarrow> string \<Rightarrow> bool" where
  "str_includes [] t = (t = [])"
| "str_includes (c # cs) t = (startsWith (c # cs) t \<or> str_includes cs t)"

subsection \<open>Doubles\<close>

text \<open>\<open>pow2 e\<close> is 2 to the power \<open>e\<close>, for an integer \<open>e\<close>.\<close>

definition pow2 :: "int \<Rightarrow> real" where
  "pow2 e = (if 0 \<le> e then 2 ^ nat e else 1 / 2 ^ nat (- e))"

text \<open>The nearest integer, a tie going to the even one.\<close>

definition roundEven :: "real \<Rightarrow> int" where
  "roundEven r =
     (let f = \<lfloor>r\<rfloor>; d = r - of_int f
      in if d < 1 / 2 then f else if 1 / 2 < d then f + 1 else if even f then f else f + 1)"

text \<open>The exponent \<open>e\<close> at which \<open>a\<close> has a significand of 53 bits, that is
  \<open>2^52 * 2^e \<le> a < 2^53 * 2^e\<close>, searched from \<open>e\<close> upwards or downwards and not below
  -1074, the exponent of the subnormal doubles. The first argument bounds the number of
  steps; 2200 covers the whole range of the doubles from 0.\<close>

fun binade :: "nat \<Rightarrow> real \<Rightarrow> int \<Rightarrow> int" where
  "binade 0 a e = e"
| "binade (Suc n) a e =
     (if 2 ^ 53 * pow2 e \<le> a then binade n a (e + 1)
      else if a < 2 ^ 52 * pow2 e \<and> - 1074 < e then binade n a (e - 1)
      else e)"

text \<open>The double nearest to a real, ties to even: the significand of 53 bits is rounded to
  an integer at the exponent of the number.\<close>

definition toDouble :: "real \<Rightarrow> real" where
  "toDouble x =
     (if x = 0 then 0
      else (let a = \<bar>x\<bar>; e = binade 2200 a 0; m = roundEven (a / pow2 e)
            in (if x < 0 then - 1 else 1) * of_int m * pow2 e))"

text \<open>\<open>Math.abs(a - b)\<close>: the subtraction rounds, the absolute value is exact.\<close>

definition jsAbsDiff :: "real \<Rightarrow> real \<Rightarrow> real" where
  "jsAbsDiff a b = \<bar>toDouble (toDouble a - toDouble b)\<bar>"

subsection \<open>Dates\<close>

text \<open>
  \<open>new Date(s)\<close> and \<open>getFullYear()\<close> belong to the host, not to the repository.
  A host gives the parser of date strings (the time value in milliseconds since the epoch,
  \<open>None\<close> for an invalid date) and the offset of its local time zone at a time value.
\<close>

record Host =
  dateParse :: "string \<Rightarrow> int option"
  localTZA :: "int \<Rightarrow> int"

definition msPerDay :: int where
  "msPerDay = 86400000"

text \<open>The year of a day number (days since 1970-01-01) in the proleptic Gregorian calendar.\<close>

definition yearFromDay :: "int \<Rightarrow> int" where
  "yearFromDay day =
     (let z = day + 719468;
          era = z div 146097;
          doe = z mod 146097;
          yoe = (doe - doe div 1460 + doe div 36524 - doe div 146096) div 365;
          doy = doe - (365 * yoe + yoe div 4 - yoe div 100);
          mp = (5 * doy + 2) div 153
      in yoe + era * 400 + (if mp < 10 then 0 else 1))"

text \<open>The day number of a calendar date.\<close>

definition dayFromDate :: "int \<Rightarrow> int \<Rightarrow> int \<Rightarrow> int" where
  "dayFromDate y m d =
     (let y' = (if m \<le> 2 then y - 1 else y);
          era = y' div 400;
          yoe = y' mod 400;
          doy = (153 * (if m > 2 then m - 3 else m + 9) + 2) div 5 + d - 1;
          doe = yoe * 365 + yoe div 4 - yoe div 100 + doy
      in era * 146097 + doe - 719468)"

text \<open>\<open>getFullYear()\<close> reads the year in the host's local time.\<close>

definition getFullYear :: "Host \<Rightarrow> int option \<Rightarrow> int option" where
  "getFullYear h tv =
     (case tv of None \<Rightarrow> None
      | Some t \<Rightarrow> Some (yearFromDay ((t + localTZA h t) div msPerDay)))"

text \<open>\<open>a >= b\<close> on two dates: false as soon as one of them is invalid.\<close>

definition date_ge :: "int option \<Rightarrow> int option \<Rightarrow> bool" where
  "date_ge a b = (case (a, b) of (Some x, Some y) \<Rightarrow> x \<ge> y | _ \<Rightarrow> False)"

text \<open>The date-only ISO form \<open>YYYY-MM-DD\<close>, which every host reads as midnight UTC.\<close>

definition digitVal :: "char \<Rightarrow> int" where
  "digitVal c = int (of_char c) - 48"

fun decimal :: "string \<Rightarrow> int option" where
  "decimal [] = None"
| "decimal cs = (if list_all isDigit cs then Some (foldl (\<lambda>a c. 10 * a + digitVal c) 0 cs) else None)"

definition isoDateParse :: "string \<Rightarrow> int option" where
  "isoDateParse s =
     (case split_on (CHR ''-'') s of
        [ys, ms, ds] \<Rightarrow>
          (if length ys = 4 \<and> length ms = 2 \<and> length ds = 2 then
             (case (decimal ys, decimal ms, decimal ds) of
                (Some y, Some m, Some d) \<Rightarrow>
                  (if 1 \<le> m \<and> m \<le> 12 \<and> 1 \<le> d \<and> d \<le> 31
                   then Some (dayFromDate y m d * msPerDay) else None)
              | _ \<Rightarrow> None)
           else None)
      | _ \<Rightarrow> None)"

text \<open>Two hosts that differ in their time zone only: UTC, and UTC-03:00 (Brasilia).\<close>

definition hostUTC :: Host where
  "hostUTC = \<lparr>dateParse = isoDateParse, localTZA = (\<lambda>t. 0)\<rparr>"

definition hostBRT :: Host where
  "hostBRT = \<lparr>dateParse = isoDateParse, localTZA = (\<lambda>t. - 10800000)\<rparr>"

section \<open>Data model\<close>

datatype CheckStatus = PENDING | PASS | FAIL | WARNING

record SicafDates =
  federal_pgfn :: "string option"
  fgts :: "string option"
  trabalhista :: "string option"
  estadual_distrital :: "string option"
  municipal :: "string option"

record LineItem =
  description :: string
  partNumber :: "string option"
  quantity :: real
  unit :: "string option"

record Sicaf =
  sicaf_found :: bool
  sicaf_cnpj :: "string option"
  validityDates :: SicafDates

record TermoRecebimento =
  tr_found :: bool
  tr_cnpj :: "string option"
  signatureDate :: "string option"
  isDefinitive :: bool
  bulletinDate :: "string option"
  hasContractReference :: bool
  contractStartYear :: "int option"
  tr_totalValue :: "real option"
  contractNumber :: "string option"

record NotaFiscal =
  nf_found :: bool
  nf_number :: "string option"
  supplierName :: "string option"
  nf_cnpj :: "string option"
  possibleCnpjs :: "string list"
  nf_emissionDate :: "string option"
  grossValue :: "real option"
  liquidValue :: "real option"
  isMaterial :: bool
  isService :: bool
  nf_items :: "LineItem list"

record Empenho =
  ne :: string
  nd :: string
  emp_value :: real

record RelatorioFatura =
  rf_found :: bool
  rf_emissionDate :: "string option"
  arrivalDate :: "string option"
  dueDate :: "string option"
  rf_totalValue :: "real option"
  empenhos :: "Empenho list"

record Rmm =
  rmm_found :: bool
  rmm_items :: "LineItem list"

record InformacaoAdministrativa =
  ia_found :: bool
  substitutesRmm :: bool
  justifiesServiceND :: bool
  justification :: "string option"
  wrongDocumentDetected :: bool

record ExtractedData =
  sicaf :: Sicaf
  termoRecebimento :: TermoRecebimento
  notaFiscal :: NotaFiscal
  relatorioFatura :: RelatorioFatura
  rmm :: Rmm
  informacaoAdministrativa :: InformacaoAdministrativa

section \<open>Findings\<close>

text \<open>
  The texts of a finding are Portuguese sentences, some with values interpolated. Each
  constructor below stands for one literal or template of the source and carries the
  interpolated values. What \<open>Intl\<close> renders (a currency amount, a date in the fallback of
  \<open>formatDate\<close>) is kept symbolic.
\<close>

datatype DateText =
    DT_NA                         \<comment> \<open>\<open>'N/A'\<close>\<close>
  | DT_DMY string string string   \<comment> \<open>\<open>`${day}/${month}/${year}`\<close>\<close>
  | DT_Intl int                   \<comment> \<open>\<open>Intl.DateTimeFormat('pt-BR').format(date)\<close> of a valid date\<close>
  | DT_Raw string                 \<comment> \<open>the input itself, after the formatter threw\<close>

datatype CurrencyText = BRL real  \<comment> \<open>\<open>Intl.NumberFormat('pt-BR', BRL currency).format(value)\<close>\<close>

datatype Title =
    Title_DocValidation | Title_SicafRegularity | Title_SicafValidation
  | Title_CnpjConsistency | Title_ReceiptTerm | Title_ValueCheck
  | Title_CommissionVsContract | Title_RmmDetailed | Title_StockEntryRmm
  | Title_StockEntry | Title_ExpenseNature

datatype Description =
    Desc_DocValidation | Desc_SicafDetailed DateText | Desc_SicafMissing
  | Desc_CnpjMustMatch | Desc_CnpjSupplier | Desc_Definitive
  | Desc_ValueCompare | Desc_ValueMustBeGross | Desc_Commission
  | Desc_RmmDetailed | Desc_RmmEntry | Desc_RmmRequired | Desc_RmmNeed
  | Desc_NdCompat | Desc_NdVerify

datatype Details =
    Det_WrongDocument
  | Det_SicafSomeExpired | Det_SicafAllValid | Det_SicafMissing
  | Det_CnpjDivergence "string list"      \<comment> \<open>the sources, joined by line breaks\<close>
  | Det_CnpjConsistent "string option"    \<comment> \<open>\<open>`CNPJ ${x} consistente ...`\<close>; \<open>None\<close> prints as \<open>null\<close>\<close>
  | Det_Definitive | Det_NotDefinitive
  | Det_ValueMatch CurrencyText CurrencyText        \<comment> \<open>gross, total\<close>
  | Det_FilledWithLiquid CurrencyText CurrencyText  \<comment> \<open>total, gross\<close>
  | Det_ValueDivergence CurrencyText CurrencyText   \<comment> \<open>gross, total\<close>
  | Det_CommissionBeforeContract int int            \<comment> \<open>bulletin year, contract start year\<close>
  | Det_RmmIdentified | Det_RmmItemsNotFound | Det_RmmQtyDivergence
  | Det_RmmAllChecked | Det_RmmNoItems
  | Det_RmmJustified | Det_RmmMissing | Det_RmmService
  | Det_NdJustified | Det_NdPresumed | Det_NdUnjustified

datatype Recommendation =
    Rec_FixFileNames | Rec_RequestSicaf | Rec_CheckSameProcess | Rec_ReturnReceipt
  | Rec_CorrectReceiptValue | Rec_CheckTypo | Rec_CheckCommission
  | Rec_RequestRmm | Rec_CheckNdNote

datatype SubDetails =
    SD_NotFoundInitial            \<comment> \<open>\<open>'Nao encontrado'\<close>, the initial value\<close>
  | SD_Date DateText              \<comment> \<open>\<open>formatDate(cert.dateStr)\<close>\<close>
  | SD_Expired DateText           \<comment> \<open>\<open>`${formatDate(cert.dateStr)} (Vencido)`\<close>\<close>
  | SD_DateNotFound               \<comment> \<open>\<open>'Data nao encontrada'\<close>\<close>
  | SD_QtyEqual real real         \<comment> \<open>invoice total, stock-entry total\<close>
  | SD_QtyDivergence real real    \<comment> \<open>invoice total, stock-entry total\<close>
  | SD_ItemNotInRmm

record SubItem =
  label :: string
  sub_status :: CheckStatus
  sub_details :: SubDetails

record AuditResult =
  res_id :: string
  title :: Title
  res_description :: Description
  status :: CheckStatus
  details :: Details
  recommendation :: "Recommendation option"
  subItems :: "SubItem list option"

section \<open>utils: formatDate, formatCurrency\<close>

definition formatDateFallback :: "Host \<Rightarrow> string \<Rightarrow> DateText" where
  "formatDateFallback h s =
     (case dateParse h s of None \<Rightarrow> DT_Raw s | Some t \<Rightarrow> DT_Intl t)"

definition formatDate :: "Host \<Rightarrow> string option \<Rightarrow> DateText" where
  "formatDate h dateString =
     (case dateString of
        None \<Rightarrow> DT_NA
      | Some s \<Rightarrow>
          if s = [] then DT_NA
          else (case split_on (CHR ''-'') s of
                  year # month # day # _ \<Rightarrow>
                    if year \<noteq> [] \<and> month \<noteq> [] \<and> day \<noteq> [] then DT_DMY day month year
                    else formatDateFallback h s
                | _ \<Rightarrow> formatDateFallback h s))"

definition formatCurrency :: "real \<Rightarrow> CurrencyText" where
  "formatCurrency v = BRL v"

section \<open>runAuditRules\<close>

text \<open>
  \<open>runAuditRules\<close> pushes findings onto one list, rule after rule. Each rule is modelled by
  the list of the findings it pushes, and \<open>runAuditRules\<close> appends them in the order of the
  source.
\<close>

subsection \<open>0. Document validation\<close>

definition rule_docValidation :: "ExtractedData \<Rightarrow> AuditResult list" where
  "rule_docValidation data =
     (if wrongDocumentDetected (informacaoAdministrativa data) then
        [\<lparr>res_id = ''doc-validation-info-admin'', title = Title_DocValidation,
          res_description = Desc_DocValidation, status = FAIL, details = Det_WrongDocument,
          recommendation = Some Rec_FixFileNames, subItems = None\<rparr>]
      else [])"

subsection \<open>1. SICAF\<close>

definition certChecks :: "ExtractedData \<Rightarrow> (string \<times> string option) list" where
  "certChecks data =
     (let vd = validityDates (sicaf data) in
      [(''Receita Federal e PGFN'', federal_pgfn vd),
       (''FGTS'', fgts vd),
       (''Trabalhista'', trabalhista vd),
       (''Estadual/Distrital'', estadual_distrital vd),
       (''Municipal'', municipal vd)])"

text \<open>The body of \<open>certChecks.map\<close>: the working status starts as \<open>PENDING\<close> and every
  branch overwrites it.\<close>

definition certSubItem :: "Host \<Rightarrow> int option \<Rightarrow> string \<times> string option \<Rightarrow> SubItem" where
  "certSubItem h signatureDateV cert =
     (let st0 = (PENDING, SD_NotFoundInitial);
          st1 = (if truthy (snd cert) then
                   (let certDate = (case snd cert of None \<Rightarrow> None | Some ds \<Rightarrow> dateParse h ds) in
                    if date_ge certDate signatureDateV
                    then (PASS, SD_Date (formatDate h (snd cert)))
                    else (FAIL, SD_Expired (formatDate h (snd cert))))
                 else (FAIL, SD_DateNotFound))
      in \<lparr>label = fst cert, sub_status = fst st1, sub_details = snd st1\<rparr>)"

definition rule_sicaf :: "Host \<Rightarrow> ExtractedData \<Rightarrow> AuditResult list" where
  "rule_sicaf h data =
     (if sicaf_found (sicaf data) \<and> tr_found (termoRecebimento data)
         \<and> truthy (signatureDate (termoRecebimento data)) then
        (let signatureDateStr = signatureDate (termoRecebimento data);
             signatureDateV = (case signatureDateStr of None \<Rightarrow> None | Some s \<Rightarrow> dateParse h s);
             subs = map (certSubItem h signatureDateV) (certChecks data);
             hasFailures = list_ex (\<lambda>i. sub_status i = FAIL) subs
         in [\<lparr>res_id = ''sicaf-detailed'', title = Title_SicafRegularity,
               res_description = Desc_SicafDetailed (formatDate h signatureDateStr),
               status = (if hasFailures then FAIL else PASS),
               details = (if hasFailures then Det_SicafSomeExpired else Det_SicafAllValid),
               recommendation = (if hasFailures then Some Rec_RequestSicaf else None),
               subItems = Some subs\<rparr>])
      else
        [\<lparr>res_id = ''sicaf-missing'', title = Title_SicafValidation,
          res_description = Desc_SicafMissing, status = WARNING, details = Det_SicafMissing,
          recommendation = None, subItems = None\<rparr>])"

subsection \<open>2. CNPJ consistency\<close>

text \<open>A \<open>Set\<close> of strings, in insertion order.\<close>

definition set_add :: "string list \<Rightarrow> string \<Rightarrow> string list" where
  "set_add s x = (if x \<in> set s then s else s @ [x])"

text \<open>One of the three \<open>if (x.cnpj) { cnpjs.add(...); cnpjSources.push(...) }\<close> lines.\<close>

definition addCnpj :: "string \<Rightarrow> string option \<Rightarrow> string list \<times> string list \<Rightarrow> string list \<times> string list" where
  "addCnpj lbl c st =
     (case c of
        None \<Rightarrow> st
      | Some raw \<Rightarrow>
          if raw = [] then st
          else (set_add (fst st) (stripNonDigits raw), snd st @ [lbl @ '': '' @ raw]))"

definition collectCnpjs :: "ExtractedData \<Rightarrow> string list \<times> string list" where
  "collectCnpjs data =
     addCnpj ''SICAF'' (sicaf_cnpj (sicaf data))
       (addCnpj ''Termo'' (tr_cnpj (termoRecebimento data))
          (addCnpj ''NF'' (nf_cnpj (notaFiscal data)) ([], [])))"

definition rule_cnpj :: "ExtractedData \<Rightarrow> AuditResult list" where
  "rule_cnpj data =
     (let cnpjs = fst (collectCnpjs data); cnpjSources = snd (collectCnpjs data) in
      if length cnpjs > 1 then
        [\<lparr>res_id = ''cnpj-match'', title = Title_CnpjConsistency,
          res_description = Desc_CnpjMustMatch, status = FAIL,
          details = Det_CnpjDivergence cnpjSources,
          recommendation = Some Rec_CheckSameProcess, subItems = None\<rparr>]
      else if length cnpjs = 1 then
        [\<lparr>res_id = ''cnpj-match'', title = Title_CnpjConsistency,
          res_description = Desc_CnpjSupplier, status = PASS,
          details = Det_CnpjConsistent
            (js_or (nf_cnpj (notaFiscal data)) (tr_cnpj (termoRecebimento data))),
          recommendation = None, subItems = None\<rparr>]
      else [])"

subsection \<open>3. Definitive receipt\<close>

definition rule_definitive :: "ExtractedData \<Rightarrow> AuditResult list" where
  "rule_definitive data =
     (if tr_found (termoRecebimento data) then
        (if isDefinitive (termoRecebimento data) then
           [\<lparr>res_id = ''tr-definitive'', title = Title_ReceiptTerm,
             res_description = Desc_Definitive, status = PASS, details = Det_Definitive,
             recommendation = None, subItems = None\<rparr>]
         else
           [\<lparr>res_id = ''tr-definitive'', title = Title_ReceiptTerm,
             res_description = Desc_Definitive, status = FAIL, details = Det_NotDefinitive,
             recommendation = Some Rec_ReturnReceipt, subItems = None\<rparr>])
      else [])"

subsection \<open>4. Value check\<close>

definition valueCheck :: "real \<Rightarrow> real option \<Rightarrow> real \<Rightarrow> AuditResult" where
  "valueCheck nfGross nfLiquid trTotal =
     (let isMatchGross = (jsAbsDiff nfGross trTotal < toDouble 0.05) in
      if isMatchGross then
        \<lparr>res_id = ''value-check-gross'', title = Title_ValueCheck,
          res_description = Desc_ValueCompare, status = PASS,
          details = Det_ValueMatch (formatCurrency nfGross) (formatCurrency trTotal),
          recommendation = None, subItems = None\<rparr>
      else if (case nfLiquid of None \<Rightarrow> False | Some l \<Rightarrow> jsAbsDiff l trTotal < toDouble 0.05) then
        \<lparr>res_id = ''value-check-gross'', title = Title_ValueCheck,
          res_description = Desc_ValueMustBeGross, status = FAIL,
          details = Det_FilledWithLiquid (formatCurrency trTotal) (formatCurrency nfGross),
          recommendation = Some Rec_CorrectReceiptValue, subItems = None\<rparr>
      else
        \<lparr>res_id = ''value-check-gross'', title = Title_ValueCheck,
          res_description = Desc_ValueCompare, status = WARNING,
          details = Det_ValueDivergence (formatCurrency nfGross) (formatCurrency trTotal),
          recommendation = Some Rec_CheckTypo, subItems = None\<rparr>)"

definition rule_value :: "ExtractedData \<Rightarrow> AuditResult list" where
  "rule_value data =
     (if nf_found (notaFiscal data) \<and> tr_found (termoRecebimento data) then
        (case (grossValue (notaFiscal data), tr_totalValue (termoRecebimento data)) of
           (Some nfGross, Some trTotal) \<Rightarrow>
             [valueCheck nfGross (liquidValue (notaFiscal data)) trTotal]
         | _ \<Rightarrow> [])
      else [])"

subsection \<open>5. Contract year\<close>

definition rule_contract :: "Host \<Rightarrow> ExtractedData \<Rightarrow> AuditResult list" where
  "rule_contract h data =
     (if tr_found (termoRecebimento data) \<and> truthy (bulletinDate (termoRecebimento data)) then
        (case (bulletinDate (termoRecebimento data), contractStartYear (termoRecebimento data)) of
           (Some bd, Some startYear) \<Rightarrow>
             if startYear \<noteq> 0 then
               (case getFullYear h (dateParse h bd) of
                  None \<Rightarrow> []
                | Some bulletinYear \<Rightarrow>
                    if bulletinYear < startYear then
                      [\<lparr>res_id = ''contract-date'', title = Title_CommissionVsContract,
                        res_description = Desc_Commission, status = FAIL,
                        details = Det_CommissionBeforeContract bulletinYear startYear,
                        recommendation = Some Rec_CheckCommission, subItems = None\<rparr>]
                    else [])
             else []
         | _ \<Rightarrow> [])
      else [])"

subsection \<open>6. Stock entry (RMM)\<close>

record AggregatedItem =
  totalQty :: real
  agg_description :: string
  agg_partNumber :: "string option"
  originalCount :: nat

text \<open>A \<open>Map\<close> with string keys is a list of pairs in insertion order, with distinct keys.\<close>

type_synonym AggMap = "(string \<times> AggregatedItem) list"

definition map_has :: "('k \<times> 'v) list \<Rightarrow> 'k \<Rightarrow> bool" where
  "map_has m k = (map_of m k \<noteq> None)"

fun map_set :: "('k \<times> 'v) list \<Rightarrow> 'k \<Rightarrow> 'v \<Rightarrow> ('k \<times> 'v) list" where
  "map_set [] k v = [(k, v)]"
| "map_set ((k', v') # m) k v = (if k' = k then (k, v) # m else (k', v') # map_set m k v)"

text \<open>\<open>str ? str.replace(/[^a-zA-Z0-9]/g, '').toLowerCase() : ''\<close>\<close>

definition normalize :: "string option \<Rightarrow> string" where
  "normalize str =
     (case str of
        None \<Rightarrow> []
      | Some s \<Rightarrow> if s = [] then []
                  else toLowerCase (filter (\<lambda>c. isAsciiLetter c \<or> isDigit c) s))"

text \<open>The local variable \<open>key\<close> of \<open>aggregateItems\<close>.\<close>

definition itemKey :: "LineItem \<Rightarrow> string" where
  "itemKey item =
     (if truthy (partNumber item) \<and> (case partNumber item of None \<Rightarrow> False | Some pn \<Rightarrow> length pn > 2)
      then normalize (partNumber item)
      else take 30 (normalize (Some (description item))))"

text \<open>The body of \<open>items.forEach\<close>. The entry read back by \<open>map.get(key)!\<close> is always there,
  since the key was set the line before.\<close>

definition addItem :: "AggMap \<Rightarrow> LineItem \<Rightarrow> AggMap" where
  "addItem m item =
     (let key = itemKey item;
          m1 = (if \<not> map_has m key
                then map_set m key \<lparr>totalQty = 0, agg_description = description item,
                                     agg_partNumber = partNumber item, originalCount = 0\<rparr>
                else m)
      in case map_of m1 key of
           None \<Rightarrow> m1
         | Some entry \<Rightarrow>
             (let e1 = entry\<lparr>totalQty := totalQty entry + quantity item\<rparr>;
                  e2 = e1\<lparr>originalCount := originalCount e1 + 1\<rparr>;
                  e3 = (if length (description item) > length (agg_description e2)
                        then e2\<lparr>agg_description := description item\<rparr> else e2)
              in map_set m1 key e3))"

definition aggregateItems :: "LineItem list \<Rightarrow> AggMap" where
  "aggregateItems items = foldl addItem [] items"

definition fuzzyTokens :: "string \<Rightarrow> string list" where
  "fuzzyTokens desc = filter (\<lambda>w. length w > 3) (split_on (CHR '' '') (toLowerCase desc))"

text \<open>The loop over \<open>rmmMap.values()\<close>, left by \<open>break\<close> at the first fuzzy match.\<close>

fun fuzzyLoop :: "string list \<Rightarrow> AggregatedItem list \<Rightarrow> AggregatedItem option" where
  "fuzzyLoop nfDescTokens [] = None"
| "fuzzyLoop nfDescTokens (rItem # rest) =
     (let rDesc = toLowerCase (agg_description rItem);
          isFuzzyMatch = list_ex (\<lambda>token. str_includes rDesc token) nfDescTokens
      in if isFuzzyMatch then Some rItem else fuzzyLoop nfDescTokens rest)"

text \<open>The value of \<open>rmmMatch\<close> when the sub-finding of one invoice group is built.\<close>

definition findRmmMatch :: "AggMap \<Rightarrow> string \<Rightarrow> AggregatedItem \<Rightarrow> AggregatedItem option" where
  "findRmmMatch rmmMap key nfItem =
     (let rmmMatch = map_of rmmMap key in
      if rmmMatch = None \<and> truthy (agg_partNumber nfItem)
      then fuzzyLoop (fuzzyTokens (agg_description nfItem)) (map snd rmmMap)
      else rmmMatch)"

definition itemLabel :: "AggregatedItem \<Rightarrow> string" where
  "itemLabel nfItem =
     (case js_or (agg_partNumber nfItem) (Some ''S/N'') of None \<Rightarrow> [] | Some p \<Rightarrow> p)
       @ '' - '' @ take 30 (agg_description nfItem) @ ''...''"

text \<open>One round of \<open>for (const [key, nfItem] of nfMap)\<close>, on the pair of \<open>matchStatus\<close> and
  \<open>subItemsResults\<close>.\<close>

definition rmmStep :: "AggMap \<Rightarrow> CheckStatus \<times> SubItem list \<Rightarrow> string \<times> AggregatedItem
    \<Rightarrow> CheckStatus \<times> SubItem list" where
  "rmmStep rmmMap st kv =
     (let matchStatus = fst st; subItemsResults = snd st; nfItem = snd kv;
          lbl = itemLabel nfItem
      in case findRmmMatch rmmMap (fst kv) nfItem of
           Some rmmMatch \<Rightarrow>
             if jsAbsDiff (totalQty rmmMatch) (totalQty nfItem) < toDouble 0.01 then
               (matchStatus,
                subItemsResults @ [\<lparr>label = lbl, sub_status = PASS,
                  sub_details = SD_QtyEqual (totalQty nfItem) (totalQty rmmMatch)\<rparr>])
             else
               (if matchStatus \<noteq> FAIL then WARNING else matchStatus,
                subItemsResults @ [\<lparr>label = lbl, sub_status = WARNING,
                  sub_details = SD_QtyDivergence (totalQty nfItem) (totalQty rmmMatch)\<rparr>])
         | None \<Rightarrow>
             (FAIL,
              subItemsResults @ [\<lparr>label = lbl, sub_status = FAIL,
                sub_details = SD_ItemNotInRmm\<rparr>]))"

definition rmmDetailed :: "ExtractedData \<Rightarrow> AuditResult" where
  "rmmDetailed data =
     (let st0 = (PASS, []);
          st = (if nf_items (notaFiscal data) \<noteq> [] then
                  (let nfMap = aggregateItems (nf_items (notaFiscal data));
                       rmmMap = aggregateItems (rmm_items (rmm data));
                       st1 = foldl (rmmStep rmmMap) st0 nfMap
                   in (fst st1,
                       (if fst st1 = FAIL then Det_RmmItemsNotFound
                        else if fst st1 = WARNING then Det_RmmQtyDivergence
                        else Det_RmmAllChecked),
                       snd st1))
                else (WARNING, Det_RmmNoItems, snd st0))
      in \<lparr>res_id = ''rmm-check-detailed'', title = Title_RmmDetailed,
           res_description = Desc_RmmDetailed, status = fst st, details = fst (snd st),
           recommendation = None,
           subItems = (if length (snd (snd st)) > 0 then Some (snd (snd st)) else None)\<rparr>)"

definition rule_rmm :: "ExtractedData \<Rightarrow> AuditResult list" where
  "rule_rmm data =
     (if nf_found (notaFiscal data) then
        (if isMaterial (notaFiscal data) then
           (let hasRmm = rmm_found (rmm data);
                hasJustification = (ia_found (informacaoAdministrativa data)
                   \<and> substitutesRmm (informacaoAdministrativa data)
                   \<and> \<not> wrongDocumentDetected (informacaoAdministrativa data))
            in if hasRmm then [rmmDetailed data]
               else if hasJustification then
                 [\<lparr>res_id = ''rmm-check'', title = Title_StockEntryRmm,
                   res_description = Desc_RmmEntry, status = PASS, details = Det_RmmJustified,
                   recommendation = None, subItems = None\<rparr>]
               else
                 [\<lparr>res_id = ''rmm-check'', title = Title_StockEntryRmm,
                   res_description = Desc_RmmRequired, status = FAIL, details = Det_RmmMissing,
                   recommendation = Some Rec_RequestRmm, subItems = None\<rparr>])
         else if isService (notaFiscal data) \<and> \<not> isMaterial (notaFiscal data) then
           [\<lparr>res_id = ''rmm-check'', title = Title_StockEntry,
             res_description = Desc_RmmNeed, status = PASS, details = Det_RmmService,
             recommendation = None, subItems = None\<rparr>]
         else [])
      else [])"

subsection \<open>7. Expense nature (ND)\<close>

definition rule_nd :: "ExtractedData \<Rightarrow> AuditResult list" where
  "rule_nd data =
     (if rf_found (relatorioFatura data) \<and> length (empenhos (relatorioFatura data)) > 0 then
        (let serviceNDs = filter (\<lambda>e. str_includes (nd e) ''339039'') (empenhos (relatorioFatura data));
             ia = informacaoAdministrativa data
         in if length serviceNDs > 0 \<and> isMaterial (notaFiscal data) then
              (if ia_found ia \<and> justifiesServiceND ia \<and> \<not> wrongDocumentDetected ia then
                 [\<lparr>res_id = ''nd-consistency'', title = Title_ExpenseNature,
                   res_description = Desc_NdCompat, status = PASS, details = Det_NdJustified,
                   recommendation = None, subItems = None\<rparr>]
               else if ia_found ia \<and> \<not> wrongDocumentDetected ia then
                 [\<lparr>res_id = ''nd-consistency'', title = Title_ExpenseNature,
                   res_description = Desc_NdCompat, status = PASS, details = Det_NdPresumed,
                   recommendation = None, subItems = None\<rparr>]
               else
                 [\<lparr>res_id = ''nd-consistency'', title = Title_ExpenseNature,
                   res_description = Desc_NdVerify, status = WARNING, details = Det_NdUnjustified,
                   recommendation = Some Rec_CheckNdNote, subItems = None\<rparr>])
            else [])
      else [])"

subsection \<open>The whole function\<close>

definition runAuditRules :: "Host \<Rightarrow> ExtractedData \<Rightarrow> AuditResult list" where
  "runAuditRules h data =
     rule_docValidation data @ rule_sicaf h data @ rule_cnpj data @ rule_definitive data
       @ rule_value data @ rule_contract h data @ rule_rmm data @ rule_nd data"

section \<open>handleAnalyze: the CNPJ failsafe\<close>

text \<open>The block of \<open>handleAnalyze\<close> that runs on the extracted data before the rules.\<close>

definition cnpjFailsafe :: "ExtractedData \<Rightarrow> ExtractedData" where
  "cnpjFailsafe data =
     (if tr_found (termoRecebimento data) \<and> truthy (tr_cnpj (termoRecebimento data))
         \<and> nf_found (notaFiscal data) then
        (let trCnpj = (case tr_cnpj (termoRecebimento data) of None \<Rightarrow> [] | Some c \<Rightarrow> stripNonDigits c);
             currentNfCnpj = (case nf_cnpj (notaFiscal data) of
                                None \<Rightarrow> []
                              | Some c \<Rightarrow> if c = [] then [] else stripNonDigits c)
         in if trCnpj \<noteq> currentNfCnpj \<and> length (possibleCnpjs (notaFiscal data)) > 0 then
              (let match = find (\<lambda>c. stripNonDigits c = trCnpj) (possibleCnpjs (notaFiscal data)) in
               if truthy match
               then data\<lparr>notaFiscal := (notaFiscal data)\<lparr>nf_cnpj := match\<rparr>\<rparr>
               else data)
            else data)
      else data)"

text \<open>What \<open>handleAnalyze\<close> hands to \<open>setAuditResults\<close>.\<close>

definition handleAnalyze :: "Host \<Rightarrow> ExtractedData \<Rightarrow> AuditResult list" where
  "handleAnalyze h data = runAuditRules h (cnpjFailsafe data)"

section \<open>Example inputs\<close>

text \<open>A bundle in which no document was found.\<close>

definition blankData :: ExtractedData where
  "blankData =
     \<lparr>sicaf = \<lparr>sicaf_found = False, sicaf_cnpj = None,
        validityDates = \<lparr>federal_pgfn = None, fgts = None, trabalhista = None,
          estadual_distrital = None, municipal = None\<rparr>\<rparr>,
      termoRecebimento = \<lparr>tr_found = False, tr_cnpj = None, signatureDate = None,
        isDefinitive = False, bulletinDate = None, hasContractReference = False,
        contractStartYear = None, tr_totalValue = None, contractNumber = None\<rparr>,
      notaFiscal = \<lparr>nf_found = False, nf_number = None, supplierName = None, nf_cnpj = None,
        possibleCnpjs = [], nf_emissionDate = None, grossValue = None, liquidValue = None,
        isMaterial = False, isService = False, nf_items = []\<rparr>,
      relatorioFatura = \<lparr>rf_found = False, rf_emissionDate = None, arrivalDate = None,
        dueDate = None, rf_totalValue = None, empenhos = []\<rparr>,
      rmm = \<lparr>rmm_found = False, rmm_items = []\<rparr>,
      informacaoAdministrativa = \<lparr>ia_found = False, substitutesRmm = False,
        justifiesServiceND = False, justification = None, wrongDocumentDetected = False\<rparr>\<rparr>"

text \<open>An invoice and a receipt, both found, with the gross and liquid value of the invoice
  and the total of the receipt.\<close>

definition valueData :: "real \<Rightarrow> real option \<Rightarrow> real \<Rightarrow> ExtractedData" where
  "valueData nfGross nfLiquid trTotal =
     blankData\<lparr>
       notaFiscal := (notaFiscal blankData)\<lparr>nf_found := True, grossValue := Some nfGross,
         liquidValue := nfLiquid\<rparr>,
       termoRecebimento := (termoRecebimento blankData)\<lparr>tr_found := True,
         tr_totalValue := Some trTotal\<rparr>\<rparr>"

text \<open>A materials invoice paid from a commitment of the service code, with an
  administrative note that does not carry the justification flag.\<close>

definition ndData :: ExtractedData where
  "ndData =
     blankData\<lparr>
       notaFiscal := (notaFiscal blankData)\<lparr>isMaterial := True\<rparr>,
       relatorioFatura := (relatorioFatura blankData)\<lparr>rf_found := True,
         empenhos := [\<lparr>ne = ''2024NE000123'', nd = ''339039'', emp_value = 100\<rparr>]\<rparr>,
       informacaoAdministrativa := (informacaoAdministrativa blankData)\<lparr>ia_found := True\<rparr>\<rparr>"

text \<open>A certificate whose labour clearance ran out before the signature of the receipt and
  whose municipal date is missing; the receipt is definitive.\<close>

definition sicafData :: ExtractedData where
  "sicafData =
     blankData\<lparr>
       sicaf := \<lparr>sicaf_found = True, sicaf_cnpj = None,
         validityDates = \<lparr>federal_pgfn = Some ''2024-12-31'', fgts = Some ''2024-06-30'',
           trabalhista = Some ''2024-01-15'', estadual_distrital = Some ''2024-03-10'',
           municipal = None\<rparr>\<rparr>,
       termoRecebimento := (termoRecebimento blankData)\<lparr>tr_found := True,
         signatureDate := Some ''2024-03-10'', isDefinitive := True\<rparr>\<rparr>"



text \<open>One invoice line and one stock-entry line whose descriptions share the words
  \<open>parafuso\<close> and \<open>sextavado\<close> and whose keys differ; the part number of the invoice line
  is a parameter.\<close>

definition fuzzyData :: "string option \<Rightarrow> ExtractedData" where
  "fuzzyData pn =
     blankData\<lparr>
       notaFiscal := (notaFiscal blankData)\<lparr>nf_found := True, isMaterial := True,
         nf_items := [\<lparr>description = ''Parafuso sextavado'', partNumber = pn, quantity = 10,
           unit = None\<rparr>]\<rparr>,
       rmm := \<lparr>rmm_found = True,
         rmm_items = [\<lparr>description = ''PARAFUSO SEXTAVADO M8'', partNumber = None,
           quantity = 7, unit = None\<rparr>]\<rparr>\<rparr>"

definition fuzzyNfMap :: "string option \<Rightarrow> AggMap" where
  "fuzzyNfMap pn = aggregateItems (nf_items (notaFiscal (fuzzyData pn)))"

definition fuzzyRmmMap :: AggMap where
  "fuzzyRmmMap = aggregateItems (rmm_items (rmm (fuzzyData None)))"

text \<open>An invoice with identifier \<open>11.111.111/0001-11\<close> and a receipt, both found; the
  identifier of the receipt and the list of candidate identifiers are parameters.\<close>

definition failsafeData :: "string option \<Rightarrow> string list \<Rightarrow> ExtractedData" where
  "failsafeData trCnpj possible =
     blankData\<lparr>
       notaFiscal := (notaFiscal blankData)\<lparr>nf_found := True,
         nf_cnpj := Some ''11.111.111/0001-11'', possibleCnpjs := possible\<rparr>,
       termoRecebimento := (termoRecebimento blankData)\<lparr>tr_found := True, tr_cnpj := trCnpj\<rparr>\<rparr>"

text \<open>Only the certificate carries an identifier.\<close>

definition sicafOnlyCnpjData :: ExtractedData where
  "sicafOnlyCnpjData =
     blankData\<lparr>sicaf := (sicaf blankData)\<lparr>sicaf_found := True,
       sicaf_cnpj := Some ''12.345.678/0001-99''\<rparr>\<rparr>"

text \<open>An invoice and a receipt with the given identifiers.\<close>

definition cnpjData :: "string option \<Rightarrow> string option \<Rightarrow> ExtractedData" where
  "cnpjData nfCnpj trCnpj =
     blankData\<lparr>
       notaFiscal := (notaFiscal blankData)\<lparr>nf_found := True, nf_cnpj := nfCnpj\<rparr>,
       termoRecebimento := (termoRecebimento blankData)\<lparr>tr_found := True, tr_cnpj := trCnpj\<rparr>\<rparr>"

text \<open>A receipt whose bulletin is dated on the first day of the year in which the contract
  starts.\<close>

definition bulletinData :: ExtractedData where
  "bulletinData =
     blankData\<lparr>termoRecebimento := (termoRecebimento blankData)\<lparr>tr_found := True,
       bulletinDate := Some ''2024-01-01'', contractStartYear := Some 2024\<rparr>\<rparr>"

section \<open>Notions of the specification\<close>

text \<open>The place of a finding in the order of the rules, by its id: 1 for the document-type
  guard up to 8 for the expense-nature check, and 0 for an id that no rule uses.\<close>

definition ruleIndex :: "string \<Rightarrow> nat" where
  "ruleIndex i =
     (if i = ''doc-validation-info-admin'' then 1
      else if i = ''sicaf-detailed'' \<or> i = ''sicaf-missing'' then 2
      else if i = ''cnpj-match'' then 3
      else if i = ''tr-definitive'' then 4
      else if i = ''value-check-gross'' then 5
      else if i = ''contract-date'' then 6
      else if i = ''rmm-check-detailed'' \<or> i = ''rmm-check'' then 7
      else if i = ''nd-consistency'' then 8
      else 0)"

text \<open>Neither the finding nor any of its sub-findings is \<open>PENDING\<close>.\<close>

definition noPending :: "AuditResult \<Rightarrow> bool" where
  "noPending r = (status r \<noteq> PENDING \<and>
     (case subItems r of None \<Rightarrow> True | Some subs \<Rightarrow> list_all (\<lambda>s. sub_status s \<noteq> PENDING) subs))"






text \<open>The fuzzy fallback in the words of the specification: the first stock-entry group whose
  lower-cased description contains, as a substring, one of the lower-cased words of more than
  3 characters of the invoice group's description.\<close>

definition spec_fuzzyMatch :: "AggregatedItem \<Rightarrow> AggMap \<Rightarrow> AggregatedItem option" where
  "spec_fuzzyMatch nfItem rmmMap =
     find (\<lambda>r. \<exists>token \<in> set (filter (\<lambda>w. length w > 3)
                                  (split_on (CHR '' '') (toLowerCase (agg_description nfItem)))).
                  str_includes (toLowerCase (agg_description r)) token)
          (map snd rmmMap)"

text \<open>The matching as the specification states it: the exact lookup, and the fuzzy fallback
  whenever the lookup finds nothing.\<close>

definition spec_match :: "AggMap \<Rightarrow> string \<Rightarrow> AggregatedItem \<Rightarrow> AggregatedItem option" where
  "spec_match rmmMap key nfItem =
     (case map_of rmmMap key of
        Some r \<Rightarrow> Some r
      | None \<Rightarrow> spec_fuzzyMatch nfItem rmmMap)"

text \<open>The status of the sub-finding of one invoice group, from its match.\<close>

definition subStatusOf :: "AggMap \<Rightarrow> string \<times> AggregatedItem \<Rightarrow> CheckStatus" where
  "subStatusOf rmmMap kv =
     (case findRmmMatch rmmMap (fst kv) (snd kv) of
        None \<Rightarrow> FAIL
      | Some r \<Rightarrow> if jsAbsDiff (totalQty r) (totalQty (snd kv)) < toDouble 0.01 then PASS else WARNING)"

text \<open>The normalized form of an identifier; an absent identifier normalizes to the empty
  string, as the failsafe does for the invoice.\<close>

definition normId :: "string option \<Rightarrow> string" where
  "normId c = (case c of None \<Rightarrow> [] | Some s \<Rightarrow> stripNonDigits s)"

text \<open>The condition of the replacement as the specification states it.\<close>

definition spec_replaceCond :: "ExtractedData \<Rightarrow> bool" where
  "spec_replaceCond data \<longleftrightarrow>
     nf_found (notaFiscal data) \<and> tr_found (termoRecebimento data)
     \<and> normId (nf_cnpj (notaFiscal data)) \<noteq> normId (tr_cnpj (termoRecebimento data))
     \<and> (\<exists>c \<in> set (possibleCnpjs (notaFiscal data)).
           stripNonDigits c = normId (tr_cnpj (termoRecebimento data)))"

text \<open>The first candidate identifier whose normalized form is that of the receipt.\<close>

definition firstMatch :: "ExtractedData \<Rightarrow> string option" where
  "firstMatch data =
     find (\<lambda>c. stripNonDigits c = normId (tr_cnpj (termoRecebimento data)))
          (possibleCnpjs (notaFiscal data))"

text \<open>The condition of the replacement with the two guards of the code: the identifier of
  the receipt is present, and the first matching candidate is not the empty string.\<close>

definition replaceCond :: "ExtractedData \<Rightarrow> bool" where
  "replaceCond data \<longleftrightarrow>
     nf_found (notaFiscal data) \<and> tr_found (termoRecebimento data)
     \<and> truthy (tr_cnpj (termoRecebimento data))
     \<and> normId (nf_cnpj (notaFiscal data)) \<noteq> normId (tr_cnpj (termoRecebimento data))
     \<and> truthy (firstMatch data)"

text \<open>The sources that carry an identifier, with their labels, in the order invoice, receipt,
  certificate.\<close>

definition cnpjRaws :: "ExtractedData \<Rightarrow> (string \<times> string) list" where
  "cnpjRaws data =
     concat (map (\<lambda>lc. case snd lc of None \<Rightarrow> [] | Some raw \<Rightarrow> if raw = [] then [] else [(fst lc, raw)])
       [(''NF'', nf_cnpj (notaFiscal data)),
        (''Termo'', tr_cnpj (termoRecebimento data)),
        (''SICAF'', sicaf_cnpj (sicaf data))])"

section \<open>Properties\<close>

subsection \<open>Doubles\<close>

lemma pow2_powi: "pow2 e = 2 powi e"
  by (simp add: pow2_def power_int_def inverse_eq_divide power_divide)

lemma pow2_pos: "0 < pow2 e"
  by (simp add: pow2_powi)

lemma pow2_step:
  assumes "e + 1 \<le> e'"
  shows "2 * pow2 e \<le> pow2 e'"
proof -
  have "pow2 e' = pow2 (e + 1) * pow2 (e' - (e + 1))"
    unfolding pow2_powi by (simp flip: power_int_add)
  moreover have "1 \<le> pow2 (e' - (e + 1))"
    unfolding pow2_powi using assms by (intro one_le_power_int) auto
  moreover have "pow2 (e + 1) = 2 * pow2 e"
    unfolding pow2_powi by (simp add: power_int_add)
  ultimately show ?thesis
    using pow2_pos [of e] by (simp add: mult_le_cancel_left1)
qed

text \<open>The search finds the exponent of the number from any start within its bound of steps.\<close>

lemma binade_found:
  assumes "2 ^ 52 * pow2 e \<le> a" and "a < 2 ^ 53 * pow2 e" and "- 1074 \<le> e"
    and "nat \<bar>e - e0\<bar> \<le> n"
  shows "binade n a e0 = e"
  using assms(4)
proof (induction n arbitrary: e0)
  case 0
  then show ?case by simp
next
  case (Suc n)
  consider "e0 < e" | "e0 = e" | "e < e0" by linarith
  then show ?case
  proof cases
    case 1
    then have "2 * pow2 e0 \<le> pow2 e" by (intro pow2_step) simp
    with assms(1) have up: "2 ^ 53 * pow2 e0 \<le> a" by simp
    from 1 Suc.prems have "nat \<bar>e - (e0 + 1)\<bar> \<le> n" by simp
    with Suc.IH [of "e0 + 1"] up show ?thesis by simp
  next
    case 2
    with assms(1,2) show ?thesis by simp
  next
    case 3
    then have "2 * pow2 e \<le> pow2 e0" by (intro pow2_step) simp
    with assms(2) have lo: "a < 2 ^ 52 * pow2 e0" by simp
    with pow2_pos [of e0] have nup: "\<not> 2 ^ 53 * pow2 e0 \<le> a" by simp
    from 3 assms(3) have "- 1074 < e0" by simp
    moreover from 3 Suc.prems have "nat \<bar>e - (e0 - 1)\<bar> \<le> n" by simp
    ultimately show ?thesis
      using Suc.IH [of "e0 - 1"] lo nup by simp
  qed
qed

text \<open>A number in the range of the normal doubles is rounded at its own exponent.\<close>

lemma toDouble_normal:
  assumes "2 ^ 52 * pow2 e \<le> \<bar>x\<bar>" and "\<bar>x\<bar> < 2 ^ 53 * pow2 e"
    and "- 1074 \<le> e" and "e \<le> 971"
  shows "toDouble x = (if x < 0 then - 1 else 1) * of_int (roundEven (\<bar>x\<bar> / pow2 e)) * pow2 e"
proof -
  from assms(3,4) have "nat \<bar>e - 0\<bar> \<le> 2200" by simp
  from binade_found [OF assms(1,2,3) this] have b: "binade 2200 \<bar>x\<bar> 0 = e" .
  from assms(1) pow2_pos [of e] have "x \<noteq> 0" by auto
  with b show ?thesis by (simp add: toDouble_def Let_def)
qed

lemma toDouble_at:
  assumes "2 ^ 52 * pow2 e \<le> \<bar>x\<bar>" and "\<bar>x\<bar> < 2 ^ 53 * pow2 e"
    and "- 1074 \<le> e" and "e \<le> 971"
    and "y = (if x < 0 then - 1 else 1) * of_int (roundEven (\<bar>x\<bar> / pow2 e)) * pow2 e"
  shows "toDouble x = y"
  using toDouble_normal [OF assms(1-4)] assms(5) by simp

lemma toDouble_zero: "toDouble 0 = 0"
  by (simp add: toDouble_def)

text \<open>The doubles of the decimals used below, as exact fractions.\<close>

lemma toDouble_examples:
  "toDouble 0.05 = 3602879701896397 / 72057594037927936"
  "toDouble 0.049999 = 3602807644302359 / 72057594037927936"
  "toDouble 0.01 = 5764607523034235 / 576460752303423488"
  "toDouble 999.95 = 4397826608778445 / 4398046511104"
  "toDouble 950.05 = 4178364087874355 / 4398046511104"
  "toDouble 7.01 = 3946279173483397 / 562949953421312"
  "toDouble 1000 = 1000"
  "toDouble 950 = 950"
  "toDouble 10 = 10"
  "toDouble 7 = 7"
proof -
  show "toDouble 0.05 = 3602879701896397 / 72057594037927936"
    by (rule toDouble_at [of "- 57"]) (simp_all add: pow2_def roundEven_def Let_def)
  show "toDouble 0.049999 = 3602807644302359 / 72057594037927936"
    by (rule toDouble_at [of "- 57"]) (simp_all add: pow2_def roundEven_def Let_def)
  show "toDouble 0.01 = 5764607523034235 / 576460752303423488"
    by (rule toDouble_at [of "- 59"]) (simp_all add: pow2_def roundEven_def Let_def)
  show "toDouble 999.95 = 4397826608778445 / 4398046511104"
    by (rule toDouble_at [of "- 43"]) (simp_all add: pow2_def roundEven_def Let_def)
  show "toDouble 950.05 = 4178364087874355 / 4398046511104"
    by (rule toDouble_at [of "- 43"]) (simp_all add: pow2_def roundEven_def Let_def)
  show "toDouble 7.01 = 3946279173483397 / 562949953421312"
    by (rule toDouble_at [of "- 50"]) (simp_all add: pow2_def roundEven_def Let_def)
  show "toDouble 1000 = 1000"
    by (rule toDouble_at [of "- 43"]) (simp_all add: pow2_def roundEven_def Let_def)
  show "toDouble 950 = 950"
    by (rule toDouble_at [of "- 43"]) (simp_all add: pow2_def roundEven_def Let_def)
  show "toDouble 10 = 10"
    by (rule toDouble_at [of "- 49"]) (simp_all add: pow2_def roundEven_def Let_def)
  show "toDouble 7 = 7"
    by (rule toDouble_at [of "- 50"]) (simp_all add: pow2_def roundEven_def Let_def)
qed

lemma jsAbsDiff_at:
  assumes "toDouble a = a'" and "toDouble b = b'" and "toDouble (a' - b') = d"
  shows "jsAbsDiff a b = \<bar>d\<bar>"
  using assms by (simp add: jsAbsDiff_def)

lemma jsAbsDiff_examples:
  "jsAbsDiff 1000 950 = 50"
  "jsAbsDiff 950 950 = 0"
  "jsAbsDiff 1000 999.95 = 219902325555 / 4398046511104"
  "jsAbsDiff 950.05 950 = 219902325555 / 4398046511104"
  "jsAbsDiff 0.05 0 = 3602879701896397 / 72057594037927936"
  "jsAbsDiff 0.049999 0 = 3602807644302359 / 72057594037927936"
  "jsAbsDiff 7 10 = 3"
  "jsAbsDiff 7 7.01 = 5629499534213 / 562949953421312"
proof -
  have "toDouble (1000 - 950) = 50"
    by (rule toDouble_at [of "- 47"]) (simp_all add: pow2_def roundEven_def Let_def)
  from jsAbsDiff_at [OF toDouble_examples(7) toDouble_examples(8) this]
  show "jsAbsDiff 1000 950 = 50" by simp
  from jsAbsDiff_at [OF toDouble_examples(8) toDouble_examples(8), of 0]
  show "jsAbsDiff 950 950 = 0" by (simp add: toDouble_zero)
  have "toDouble (1000 - 4397826608778445 / 4398046511104) = 219902325555 / 4398046511104"
    by (rule toDouble_at [of "- 57"]) (simp_all add: pow2_def roundEven_def Let_def)
  from jsAbsDiff_at [OF toDouble_examples(7) toDouble_examples(4) this]
  show "jsAbsDiff 1000 999.95 = 219902325555 / 4398046511104" by simp
  have "toDouble (4178364087874355 / 4398046511104 - 950) = 219902325555 / 4398046511104"
    by (rule toDouble_at [of "- 57"]) (simp_all add: pow2_def roundEven_def Let_def)
  from jsAbsDiff_at [OF toDouble_examples(5) toDouble_examples(8) this]
  show "jsAbsDiff 950.05 950 = 219902325555 / 4398046511104" by simp
  have "toDouble (3602879701896397 / 72057594037927936 - 0) = 3602879701896397 / 72057594037927936"
    by (rule toDouble_at [of "- 57"]) (simp_all add: pow2_def roundEven_def Let_def)
  from jsAbsDiff_at [OF toDouble_examples(1) toDouble_zero this]
  show "jsAbsDiff 0.05 0 = 3602879701896397 / 72057594037927936" by simp
  have "toDouble (3602807644302359 / 72057594037927936 - 0) = 3602807644302359 / 72057594037927936"
    by (rule toDouble_at [of "- 57"]) (simp_all add: pow2_def roundEven_def Let_def)
  from jsAbsDiff_at [OF toDouble_examples(2) toDouble_zero this]
  show "jsAbsDiff 0.049999 0 = 3602807644302359 / 72057594037927936" by simp
  have "toDouble (7 - 10) = - 3"
    by (rule toDouble_at [of "- 51"]) (simp_all add: pow2_def roundEven_def Let_def)
  from jsAbsDiff_at [OF toDouble_examples(10) toDouble_examples(9) this]
  show "jsAbsDiff 7 10 = 3" by simp
  have "toDouble (7 - 3946279173483397 / 562949953421312) = - (5629499534213 / 562949953421312)"
    by (rule toDouble_at [of "- 59"]) (simp_all add: pow2_def roundEven_def Let_def)
  from jsAbsDiff_at [OF toDouble_examples(10) toDouble_examples(6) this]
  show "jsAbsDiff 7 7.01 = 5629499534213 / 562949953421312" by simp
qed

text \<open>The comparisons with the tolerance at these numbers.\<close>

lemma tolerance_examples:
  "toDouble 0.049999 < toDouble 0.05"
  "\<not> jsAbsDiff 1000 950 < toDouble 0.05"
  "jsAbsDiff 950 950 < toDouble 0.05"
  "jsAbsDiff 1000 999.95 < toDouble 0.05"
  "jsAbsDiff 950.05 950 < toDouble 0.05"
  "jsAbsDiff 0.05 0 = toDouble 0.05"
  "jsAbsDiff 0.049999 0 = toDouble 0.049999"
  "\<not> jsAbsDiff 7 10 < toDouble 0.01"
  "jsAbsDiff 7 7.01 < toDouble 0.01"
  unfolding jsAbsDiff_examples toDouble_examples by simp_all

subsection \<open>What each rule pushes\<close>

lemma rule_docValidation_shape:
  "rule_docValidation data = [] \<or>
   (\<exists>f. rule_docValidation data = [f] \<and> res_id f = ''doc-validation-info-admin'')"
  by (simp add: rule_docValidation_def)

lemma rule_sicaf_shape:
  "\<exists>f. rule_sicaf h data = [f] \<and> (res_id f = ''sicaf-detailed'' \<or> res_id f = ''sicaf-missing'')"
  by (simp add: rule_sicaf_def Let_def)

lemma rule_cnpj_shape:
  "rule_cnpj data = [] \<or> (\<exists>f. rule_cnpj data = [f] \<and> res_id f = ''cnpj-match'')"
  by (simp add: rule_cnpj_def Let_def)

lemma rule_definitive_shape:
  "rule_definitive data = [] \<or> (\<exists>f. rule_definitive data = [f] \<and> res_id f = ''tr-definitive'')"
  by (simp add: rule_definitive_def)

lemma valueCheck_id: "res_id (valueCheck g l t) = ''value-check-gross''"
  by (simp add: valueCheck_def Let_def)

lemma rule_value_shape:
  "rule_value data = [] \<or> (\<exists>f. rule_value data = [f] \<and> res_id f = ''value-check-gross'')"
  by (cases "grossValue (notaFiscal data)"; cases "tr_totalValue (termoRecebimento data)")
     (simp_all add: rule_value_def valueCheck_id)

lemma rule_contract_shape:
  "rule_contract h data = [] \<or> (\<exists>f. rule_contract h data = [f] \<and> res_id f = ''contract-date'')"
  by (simp add: rule_contract_def split: option.split)

lemma rmmDetailed_id: "res_id (rmmDetailed data) = ''rmm-check-detailed''"
  by (simp add: rmmDetailed_def Let_def)

lemma rule_rmm_shape:
  "rule_rmm data = [] \<or>
   (\<exists>f. rule_rmm data = [f] \<and> (res_id f = ''rmm-check-detailed'' \<or> res_id f = ''rmm-check''))"
  by (simp add: rule_rmm_def Let_def rmmDetailed_id)

lemma rule_nd_shape:
  "rule_nd data = [] \<or> (\<exists>f. rule_nd data = [f] \<and> res_id f = ''nd-consistency'')"
  by (simp add: rule_nd_def Let_def)

subsection \<open>The findings of one id\<close>

lemma filter_id_none:
  "xs = [] \<or> (\<exists>f. xs = [f] \<and> res_id f \<noteq> i) \<Longrightarrow> filter (\<lambda>r. res_id r = i) xs = []"
  by auto

lemma filter_id_all:
  "xs = [] \<or> (\<exists>f. xs = [f] \<and> res_id f = i) \<Longrightarrow> filter (\<lambda>r. res_id r = i) xs = xs"
  by auto

lemma docValidation_filter:
  "i \<noteq> ''doc-validation-info-admin'' \<Longrightarrow> filter (\<lambda>r. res_id r = i) (rule_docValidation data) = []"
  using rule_docValidation_shape [of data] by (intro filter_id_none) auto

lemma sicaf_filter:
  "i \<noteq> ''sicaf-detailed'' \<Longrightarrow> i \<noteq> ''sicaf-missing'' \<Longrightarrow>
   filter (\<lambda>r. res_id r = i) (rule_sicaf h data) = []"
  using rule_sicaf_shape [of h data] by (intro filter_id_none) auto

lemma cnpj_filter:
  "i \<noteq> ''cnpj-match'' \<Longrightarrow> filter (\<lambda>r. res_id r = i) (rule_cnpj data) = []"
  using rule_cnpj_shape [of data] by (intro filter_id_none) auto

lemma definitive_filter:
  "i \<noteq> ''tr-definitive'' \<Longrightarrow> filter (\<lambda>r. res_id r = i) (rule_definitive data) = []"
  using rule_definitive_shape [of data] by (intro filter_id_none) auto

lemma value_filter:
  "i \<noteq> ''value-check-gross'' \<Longrightarrow> filter (\<lambda>r. res_id r = i) (rule_value data) = []"
  using rule_value_shape [of data] by (intro filter_id_none) auto

lemma contract_filter:
  "i \<noteq> ''contract-date'' \<Longrightarrow> filter (\<lambda>r. res_id r = i) (rule_contract h data) = []"
  using rule_contract_shape [of h data] by (intro filter_id_none) auto

lemma rmm_filter:
  "i \<noteq> ''rmm-check-detailed'' \<Longrightarrow> i \<noteq> ''rmm-check'' \<Longrightarrow>
   filter (\<lambda>r. res_id r = i) (rule_rmm data) = []"
  using rule_rmm_shape [of data] by (intro filter_id_none) auto

lemma nd_filter:
  "i \<noteq> ''nd-consistency'' \<Longrightarrow> filter (\<lambda>r. res_id r = i) (rule_nd data) = []"
  using rule_nd_shape [of data] by (intro filter_id_none) auto

lemmas other_rule_filters =
  docValidation_filter sicaf_filter cnpj_filter definitive_filter value_filter
  contract_filter rmm_filter nd_filter

lemma filter_value_id:
  "filter (\<lambda>r. res_id r = ''value-check-gross'') (runAuditRules h data) = rule_value data"
  using rule_value_shape [of data]
  by (simp add: runAuditRules_def other_rule_filters filter_id_all)

lemma filter_nd_id:
  "filter (\<lambda>r. res_id r = ''nd-consistency'') (runAuditRules h data) = rule_nd data"
  using rule_nd_shape [of data]
  by (simp add: runAuditRules_def other_rule_filters filter_id_all)

subsection \<open>Value check\<close>

text \<open>
  C3, as amended. When the invoice and the receipt are found and the invoice gross value and
  the receipt total are not null, the output holds exactly one finding with id
  \<open>value-check-gross\<close>. The differences are computed in double precision. The finding is PASS
  when the computed absolute difference of gross and total is below the double 0.05;
  otherwise FAIL, with the message that the receipt was filled with the net amount, when the
  liquid value is not null and its computed absolute difference from the total is below the
  double 0.05; otherwise WARNING. A computed difference equal to the double 0.05 is not a
  match, one equal to the double 0.049999 is.
\<close>

theorem value_check_gross:
  assumes "nf_found (notaFiscal data)" and "tr_found (termoRecebimento data)"
    and "grossValue (notaFiscal data) = Some nfGross"
    and "tr_totalValue (termoRecebimento data) = Some trTotal"
  shows "\<exists>f. filter (\<lambda>r. res_id r = ''value-check-gross'') (runAuditRules h data) = [f]
    \<and> (jsAbsDiff nfGross trTotal < toDouble 0.05 \<longrightarrow> status f = PASS)
    \<and> (\<not> jsAbsDiff nfGross trTotal < toDouble 0.05 \<longrightarrow>
         (\<forall>nfLiquid. liquidValue (notaFiscal data) = Some nfLiquid
              \<and> jsAbsDiff nfLiquid trTotal < toDouble 0.05 \<longrightarrow>
            status f = FAIL
            \<and> details f = Det_FilledWithLiquid (formatCurrency trTotal) (formatCurrency nfGross)))
    \<and> (\<not> jsAbsDiff nfGross trTotal < toDouble 0.05 \<longrightarrow>
         (liquidValue (notaFiscal data) = None
          \<or> (\<exists>nfLiquid. liquidValue (notaFiscal data) = Some nfLiquid
                \<and> \<not> jsAbsDiff nfLiquid trTotal < toDouble 0.05)) \<longrightarrow>
            status f = WARNING)
    \<and> (jsAbsDiff nfGross trTotal = toDouble 0.05 \<longrightarrow> status f \<noteq> PASS)
    \<and> (jsAbsDiff nfGross trTotal = toDouble 0.049999 \<longrightarrow> status f = PASS)"
proof -
  note lt = tolerance_examples(1)
  from assms have r: "rule_value data = [valueCheck nfGross (liquidValue (notaFiscal data)) trTotal]"
    by (simp add: rule_value_def)
  show ?thesis
    unfolding filter_value_id r using lt
    by (cases "liquidValue (notaFiscal data)") (auto simp: valueCheck_def Let_def)
qed

text \<open>C3 as stated fails on decimals: gross 1000.00 and total 999.95 differ by exactly 0.05,
  and the finding is PASS, since the doubles give a difference just below the double 0.05.\<close>

theorem decimal_boundary_counterexample:
  "\<bar>1000 - 999.95\<bar> = (0.05 :: real)
   \<and> map status (rule_value (valueData 1000 None 999.95)) = [PASS]"
  using tolerance_examples(4)
  by (simp add: rule_value_def valueData_def blankData_def valueCheck_def)

text \<open>The same on the liquid value: liquid 950.05 and total 950.00 differ by exactly 0.05, and
  the finding is the FAIL of a receipt filled with the net amount.\<close>

lemma liquid_boundary_example:
  "map status (rule_value (valueData 1000 (Some 950.05) 950)) = [FAIL]"
  using tolerance_examples(2,5)
  by (simp add: rule_value_def valueData_def blankData_def valueCheck_def)

text \<open>The theorem at gross 1000.00, liquid 950.00 and total 950.00 (FAIL of a receipt filled
  with the net amount), at gross 0.05 and total 0 (a computed difference equal to the double
  0.05: WARNING) and at gross 0.049999 and total 0 (PASS).\<close>

theorem value_check_gross_witness:
  "(\<exists>f. filter (\<lambda>r. res_id r = ''value-check-gross'')
          (runAuditRules hostUTC (valueData 1000 (Some 950) 950)) = [f]
        \<and> status f = FAIL
        \<and> details f = Det_FilledWithLiquid (formatCurrency 950) (formatCurrency 1000))
   \<and> jsAbsDiff 0.05 0 = toDouble 0.05
   \<and> (\<exists>f. filter (\<lambda>r. res_id r = ''value-check-gross'')
          (runAuditRules hostUTC (valueData 0.05 None 0)) = [f]
        \<and> status f = WARNING)
   \<and> jsAbsDiff 0.049999 0 = toDouble 0.049999
   \<and> (\<exists>f. filter (\<lambda>r. res_id r = ''value-check-gross'')
          (runAuditRules hostUTC (valueData 0.049999 None 0)) = [f]
        \<and> status f = PASS)"
proof -
  have h: "nf_found (notaFiscal (valueData g l t))" "tr_found (termoRecebimento (valueData g l t))"
    "grossValue (notaFiscal (valueData g l t)) = Some g"
    "tr_totalValue (termoRecebimento (valueData g l t)) = Some t"
    "liquidValue (notaFiscal (valueData g l t)) = l" for g l t
    by (simp_all add: valueData_def blankData_def)
  note n1 = tolerance_examples(2) and m1 = tolerance_examples(3)
  from value_check_gross [OF h(1-4) [of 1000 "Some 950" 950], where h = hostUTC] h(5) [of 1000 "Some 950" 950] n1 m1
  have a: "\<exists>f. filter (\<lambda>r. res_id r = ''value-check-gross'')
          (runAuditRules hostUTC (valueData 1000 (Some 950) 950)) = [f]
        \<and> status f = FAIL
        \<and> details f = Det_FilledWithLiquid (formatCurrency 950) (formatCurrency 1000)"
    by auto
  note e2 = tolerance_examples(6)
  from e2 have n2: "\<not> jsAbsDiff 0.05 0 < toDouble 0.05" by simp
  from value_check_gross [OF h(1-4) [of "0.05" None 0], where h = hostUTC] h(5) [of "0.05" None 0] n2
  have b: "\<exists>f. filter (\<lambda>r. res_id r = ''value-check-gross'')
          (runAuditRules hostUTC (valueData 0.05 None 0)) = [f]
        \<and> status f = WARNING"
    by auto
  note e3 = tolerance_examples(7)
  from value_check_gross [OF h(1-4) [of "0.049999" None 0], where h = hostUTC] e3
  have c: "\<exists>f. filter (\<lambda>r. res_id r = ''value-check-gross'')
          (runAuditRules hostUTC (valueData 0.049999 None 0)) = [f]
        \<and> status f = PASS"
    by auto
  from a e2 b e3 c show ?thesis by (intro conjI)
qed

subsection \<open>Expense nature\<close>

text \<open>
  C6. When the billing report is found with at least one commitment, some commitment has the
  service code, the invoice is flagged material, and the administrative note is found, is not
  a wrong document and does not carry the justification flag, the rule emits a PASS finding
  (justification presumed from the presence of the note), not a WARNING.
\<close>

theorem nd_presumed_pass:
  assumes "rf_found (relatorioFatura data)"
    and "length (empenhos (relatorioFatura data)) \<ge> 1"
    and "\<exists>e \<in> set (empenhos (relatorioFatura data)). str_includes (nd e) ''339039''"
    and "isMaterial (notaFiscal data)"
    and "ia_found (informacaoAdministrativa data)"
    and "\<not> wrongDocumentDetected (informacaoAdministrativa data)"
    and "\<not> justifiesServiceND (informacaoAdministrativa data)"
  shows "\<exists>f. filter (\<lambda>r. res_id r = ''nd-consistency'') (runAuditRules h data) = [f]
    \<and> status f = PASS \<and> details f = Det_NdPresumed \<and> recommendation f = None"
proof -
  from assms(3) have "filter (\<lambda>e. str_includes (nd e) ''339039'') (empenhos (relatorioFatura data)) \<noteq> []"
    by (auto simp: filter_empty_conv)
  with assms show ?thesis
    unfolding filter_nd_id by (auto simp: rule_nd_def Let_def)
qed

theorem nd_presumed_pass_witness:
  "\<exists>f. filter (\<lambda>r. res_id r = ''nd-consistency'') (runAuditRules hostUTC ndData) = [f]
    \<and> status f = PASS \<and> details f = Det_NdPresumed \<and> recommendation f = None"
proof -
  have h1: "rf_found (relatorioFatura ndData)"
    and h2: "length (empenhos (relatorioFatura ndData)) \<ge> 1"
    and h4: "isMaterial (notaFiscal ndData)"
    and h5: "ia_found (informacaoAdministrativa ndData)"
    and h6: "\<not> wrongDocumentDetected (informacaoAdministrativa ndData)"
    and h7: "\<not> justifiesServiceND (informacaoAdministrativa ndData)"
    by (simp_all add: ndData_def blankData_def)
  have h3: "\<exists>e \<in> set (empenhos (relatorioFatura ndData)). str_includes (nd e) ''339039''"
    by (simp add: ndData_def blankData_def)
  from nd_presumed_pass [OF h1 h2 h3 h4 h5 h6 h7] show ?thesis .
qed

subsection \<open>Concrete runs\<close>

lemma isoDateParse_examples:
  "isoDateParse ''2024-12-31'' = Some 1735603200000"
  "isoDateParse ''2024-06-30'' = Some 1719705600000"
  "isoDateParse ''2024-01-15'' = Some 1705276800000"
  "isoDateParse ''2024-03-10'' = Some 1710028800000"
  "isoDateParse ''2024-01-01'' = Some 1704067200000"
  by (simp_all add: isoDateParse_def dayFromDate_def msPerDay_def isDigit_def digitVal_def)

lemma sicafData_run:
  "runAuditRules hostUTC sicafData =
    [\<lparr>res_id = ''sicaf-detailed'', title = Title_SicafRegularity,
       res_description = Desc_SicafDetailed (DT_DMY ''10'' ''03'' ''2024''),
       status = FAIL, details = Det_SicafSomeExpired,
       recommendation = Some Rec_RequestSicaf,
       subItems = Some
         [\<lparr>label = ''Receita Federal e PGFN'', sub_status = PASS,
            sub_details = SD_Date (DT_DMY ''31'' ''12'' ''2024'')\<rparr>,
          \<lparr>label = ''FGTS'', sub_status = PASS,
            sub_details = SD_Date (DT_DMY ''30'' ''06'' ''2024'')\<rparr>,
          \<lparr>label = ''Trabalhista'', sub_status = FAIL,
            sub_details = SD_Expired (DT_DMY ''15'' ''01'' ''2024'')\<rparr>,
          \<lparr>label = ''Estadual/Distrital'', sub_status = PASS,
            sub_details = SD_Date (DT_DMY ''10'' ''03'' ''2024'')\<rparr>,
          \<lparr>label = ''Municipal'', sub_status = FAIL, sub_details = SD_DateNotFound\<rparr>]\<rparr>,
     \<lparr>res_id = ''tr-definitive'', title = Title_ReceiptTerm,
       res_description = Desc_Definitive, status = PASS, details = Det_Definitive,
       recommendation = None, subItems = None\<rparr>]"
  by (simp add: runAuditRules_def rule_docValidation_def rule_sicaf_def rule_cnpj_def
      rule_definitive_def rule_value_def rule_contract_def rule_rmm_def rule_nd_def
      sicafData_def blankData_def hostUTC_def isoDateParse_examples truthy_def Let_def
      certChecks_def certSubItem_def date_ge_def formatDate_def collectCnpjs_def addCnpj_def)

lemma sicafData_detailed:
  "filter (\<lambda>r. res_id r = ''sicaf-detailed'') (runAuditRules hostUTC sicafData)
     = [hd (runAuditRules hostUTC sicafData)]"
  unfolding sicafData_run by simp

lemma blankData_run:
  "runAuditRules hostUTC blankData =
    [\<lparr>res_id = ''sicaf-missing'', title = Title_SicafValidation,
       res_description = Desc_SicafMissing, status = WARNING, details = Det_SicafMissing,
       recommendation = None, subItems = None\<rparr>]"
  by (simp add: runAuditRules_def rule_docValidation_def rule_sicaf_def rule_cnpj_def
      rule_definitive_def rule_value_def rule_contract_def rule_rmm_def rule_nd_def
      blankData_def truthy_def Let_def collectCnpjs_def addCnpj_def)

subsection \<open>Certificate validity\<close>

lemma filter_sicaf_detailed:
  "filter (\<lambda>r. res_id r = ''sicaf-detailed'') (runAuditRules h data)
     = filter (\<lambda>r. res_id r = ''sicaf-detailed'') (rule_sicaf h data)"
  by (simp add: runAuditRules_def other_rule_filters)

lemma filter_sicaf_missing:
  "filter (\<lambda>r. res_id r = ''sicaf-missing'') (runAuditRules h data)
     = filter (\<lambda>r. res_id r = ''sicaf-missing'') (rule_sicaf h data)"
  by (simp add: runAuditRules_def other_rule_filters)

lemma certSubItem_rule:
  "label (certSubItem h (dateParse h sd) cert) = fst cert
   \<and> (\<not> truthy (snd cert) \<longrightarrow>
        sub_status (certSubItem h (dateParse h sd) cert) = FAIL
        \<and> sub_details (certSubItem h (dateParse h sd) cert) = SD_DateNotFound)
   \<and> (\<forall>ds tc ts. snd cert = Some ds \<and> ds \<noteq> [] \<and> dateParse h ds = Some tc
          \<and> dateParse h sd = Some ts \<longrightarrow>
        (tc < ts \<longrightarrow> sub_status (certSubItem h (dateParse h sd) cert) = FAIL)
        \<and> (ts \<le> tc \<longrightarrow> sub_status (certSubItem h (dateParse h sd) cert) = PASS))"
  by (auto simp: certSubItem_def Let_def truthy_def date_ge_def)

text \<open>
  C4. When the certificate and the receipt are found and the receipt has a signature date, the
  output holds one finding with id \<open>sicaf-detailed\<close> (and none with id \<open>sicaf-missing\<close>),
  with five sub-findings in the order of the certificate kinds. A sub-finding is FAIL when its
  validity date is absent (date not found) or before the signature date, PASS when the validity
  date is on or after the signature date. The finding is FAIL when some sub-finding is FAIL,
  else PASS, and it has a recommendation exactly when it is FAIL. When one of the three
  conditions is missing, the output holds instead a single WARNING finding with id
  \<open>sicaf-missing\<close>. Dates are compared as the time values the host parses them to.
\<close>

theorem sicaf_check:
  "(sicaf_found (sicaf data) \<and> tr_found (termoRecebimento data)
      \<and> truthy (signatureDate (termoRecebimento data)) \<longrightarrow>
     (\<exists>f subs sd.
        filter (\<lambda>r. res_id r = ''sicaf-detailed'') (runAuditRules h data) = [f]
        \<and> filter (\<lambda>r. res_id r = ''sicaf-missing'') (runAuditRules h data) = []
        \<and> signatureDate (termoRecebimento data) = Some sd
        \<and> subItems f = Some subs
        \<and> map label subs = [''Receita Federal e PGFN'', ''FGTS'', ''Trabalhista'',
             ''Estadual/Distrital'', ''Municipal'']
        \<and> list_all2
             (\<lambda>dateStr s.
                (\<not> truthy dateStr \<longrightarrow> sub_status s = FAIL \<and> sub_details s = SD_DateNotFound)
                \<and> (\<forall>ds tc ts. dateStr = Some ds \<and> ds \<noteq> [] \<and> dateParse h ds = Some tc
                       \<and> dateParse h sd = Some ts \<longrightarrow>
                     (tc < ts \<longrightarrow> sub_status s = FAIL) \<and> (ts \<le> tc \<longrightarrow> sub_status s = PASS)))
             [federal_pgfn (validityDates (sicaf data)), fgts (validityDates (sicaf data)),
              trabalhista (validityDates (sicaf data)),
              estadual_distrital (validityDates (sicaf data)),
              municipal (validityDates (sicaf data))]
             subs
        \<and> status f = (if FAIL \<in> set (map sub_status subs) then FAIL else PASS)
        \<and> (recommendation f \<noteq> None \<longleftrightarrow> status f = FAIL)))
   \<and> (\<not> (sicaf_found (sicaf data) \<and> tr_found (termoRecebimento data)
          \<and> truthy (signatureDate (termoRecebimento data))) \<longrightarrow>
     (\<exists>f. filter (\<lambda>r. res_id r = ''sicaf-missing'') (runAuditRules h data) = [f]
        \<and> filter (\<lambda>r. res_id r = ''sicaf-detailed'') (runAuditRules h data) = []
        \<and> status f = WARNING \<and> subItems f = None))"
proof (intro conjI impI)
  assume pre: "sicaf_found (sicaf data) \<and> tr_found (termoRecebimento data)
      \<and> truthy (signatureDate (termoRecebimento data))"
  then obtain sd where sd: "signatureDate (termoRecebimento data) = Some sd"
    by (auto simp: truthy_def split: option.splits)
  define subs where "subs = map (certSubItem h (dateParse h sd)) (certChecks data)"
  define f where "f = \<lparr>res_id = ''sicaf-detailed'', title = Title_SicafRegularity,
               res_description = Desc_SicafDetailed (formatDate h (Some sd)),
               status = (if list_ex (\<lambda>i. sub_status i = FAIL) subs then FAIL else PASS),
               details = (if list_ex (\<lambda>i. sub_status i = FAIL) subs then Det_SicafSomeExpired else Det_SicafAllValid),
               recommendation = (if list_ex (\<lambda>i. sub_status i = FAIL) subs then Some Rec_RequestSicaf else None),
               subItems = Some subs\<rparr>"
  have r: "rule_sicaf h data = [f]"
    using pre sd by (simp add: rule_sicaf_def Let_def f_def subs_def)
  have 1: "filter (\<lambda>r. res_id r = ''sicaf-detailed'') (runAuditRules h data) = [f]"
    unfolding filter_sicaf_detailed r by (simp add: f_def)
  have 2: "filter (\<lambda>r. res_id r = ''sicaf-missing'') (runAuditRules h data) = []"
    unfolding filter_sicaf_missing r by (simp add: f_def)
  have 3: "map label subs = [''Receita Federal e PGFN'', ''FGTS'', ''Trabalhista'',
             ''Estadual/Distrital'', ''Municipal'']"
    by (simp add: subs_def certChecks_def Let_def certSubItem_def)
  define R where "R = (\<lambda>dateStr (s::SubItem).
                (\<not> truthy dateStr \<longrightarrow> sub_status s = FAIL \<and> sub_details s = SD_DateNotFound)
                \<and> (\<forall>ds tc ts. dateStr = Some ds \<and> ds \<noteq> [] \<and> dateParse h ds = Some tc
                       \<and> dateParse h sd = Some ts \<longrightarrow>
                     (tc < ts \<longrightarrow> sub_status s = FAIL) \<and> (ts \<le> tc \<longrightarrow> sub_status s = PASS)))"
  have el: "R d (certSubItem h (dateParse h sd) (lbl, d))" for lbl d
    unfolding R_def using certSubItem_rule [of h sd "(lbl, d)"] by simp
  have "list_all2 R
             [federal_pgfn (validityDates (sicaf data)), fgts (validityDates (sicaf data)),
              trabalhista (validityDates (sicaf data)),
              estadual_distrital (validityDates (sicaf data)),
              municipal (validityDates (sicaf data))]
             subs"
    unfolding subs_def certChecks_def Let_def by (simp add: el)
  then have 4: "list_all2
             (\<lambda>dateStr s.
                (\<not> truthy dateStr \<longrightarrow> sub_status s = FAIL \<and> sub_details s = SD_DateNotFound)
                \<and> (\<forall>ds tc ts. dateStr = Some ds \<and> ds \<noteq> [] \<and> dateParse h ds = Some tc
                       \<and> dateParse h sd = Some ts \<longrightarrow>
                     (tc < ts \<longrightarrow> sub_status s = FAIL) \<and> (ts \<le> tc \<longrightarrow> sub_status s = PASS)))
             [federal_pgfn (validityDates (sicaf data)), fgts (validityDates (sicaf data)),
              trabalhista (validityDates (sicaf data)),
              estadual_distrital (validityDates (sicaf data)),
              municipal (validityDates (sicaf data))]
             subs"
    unfolding R_def .
  have 5: "status f = (if FAIL \<in> set (map sub_status subs) then FAIL else PASS)"
    by (force simp: f_def list_ex_iff)
  have 6: "recommendation f \<noteq> None \<longleftrightarrow> status f = FAIL"
    by (simp add: f_def)
  have 7: "subItems f = Some subs" by (simp add: f_def)
  show "\<exists>f subs sd.
        filter (\<lambda>r. res_id r = ''sicaf-detailed'') (runAuditRules h data) = [f]
        \<and> filter (\<lambda>r. res_id r = ''sicaf-missing'') (runAuditRules h data) = []
        \<and> signatureDate (termoRecebimento data) = Some sd
        \<and> subItems f = Some subs
        \<and> map label subs = [''Receita Federal e PGFN'', ''FGTS'', ''Trabalhista'',
             ''Estadual/Distrital'', ''Municipal'']
        \<and> list_all2
             (\<lambda>dateStr s.
                (\<not> truthy dateStr \<longrightarrow> sub_status s = FAIL \<and> sub_details s = SD_DateNotFound)
                \<and> (\<forall>ds tc ts. dateStr = Some ds \<and> ds \<noteq> [] \<and> dateParse h ds = Some tc
                       \<and> dateParse h sd = Some ts \<longrightarrow>
                     (tc < ts \<longrightarrow> sub_status s = FAIL) \<and> (ts \<le> tc \<longrightarrow> sub_status s = PASS)))
             [federal_pgfn (validityDates (sicaf data)), fgts (validityDates (sicaf data)),
              trabalhista (validityDates (sicaf data)),
              estadual_distrital (validityDates (sicaf data)),
              municipal (validityDates (sicaf data))]
             subs
        \<and> status f = (if FAIL \<in> set (map sub_status subs) then FAIL else PASS)
        \<and> (recommendation f \<noteq> None \<longleftrightarrow> status f = FAIL)"
    by (rule exI [of _ f], rule exI [of _ subs], rule exI [of _ sd])
       (intro conjI 1 2 sd 7 3 4 5 6)
next
  assume npre: "\<not> (sicaf_found (sicaf data) \<and> tr_found (termoRecebimento data)
          \<and> truthy (signatureDate (termoRecebimento data)))"
  then show "\<exists>f. filter (\<lambda>r. res_id r = ''sicaf-missing'') (runAuditRules h data) = [f]
        \<and> filter (\<lambda>r. res_id r = ''sicaf-detailed'') (runAuditRules h data) = []
        \<and> status f = WARNING \<and> subItems f = None"
    unfolding filter_sicaf_detailed filter_sicaf_missing
    by (auto simp: rule_sicaf_def)
qed

text \<open>The theorem at \<open>sicafData\<close> (third certificate expired, fifth without date) and, for
  the other branch, at the blank bundle.\<close>

theorem sicaf_check_witness:
  "sicaf_found (sicaf sicafData) \<and> tr_found (termoRecebimento sicafData)
   \<and> truthy (signatureDate (termoRecebimento sicafData))
   \<and> (\<exists>f subs. filter (\<lambda>r. res_id r = ''sicaf-detailed'') (runAuditRules hostUTC sicafData) = [f]
         \<and> subItems f = Some subs
         \<and> map sub_status subs = [PASS, PASS, FAIL, PASS, FAIL]
         \<and> status f = FAIL \<and> recommendation f = Some Rec_RequestSicaf)
   \<and> \<not> sicaf_found (sicaf blankData)
   \<and> (\<exists>f. filter (\<lambda>r. res_id r = ''sicaf-missing'') (runAuditRules hostUTC blankData) = [f]
         \<and> status f = WARNING)"
proof -
  have pre: "sicaf_found (sicaf sicafData) \<and> tr_found (termoRecebimento sicafData)
      \<and> truthy (signatureDate (termoRecebimento sicafData))"
    by (simp add: sicafData_def blankData_def truthy_def)
  have npre: "\<not> (sicaf_found (sicaf blankData) \<and> tr_found (termoRecebimento blankData)
      \<and> truthy (signatureDate (termoRecebimento blankData)))"
    by (simp add: blankData_def)
  note a = sicaf_check [of sicafData hostUTC, THEN conjunct1, THEN mp, OF pre]
  note b = sicaf_check [of blankData hostUTC, THEN conjunct2, THEN mp, OF npre]
  from a obtain f subs
    where ff: "filter (\<lambda>r. res_id r = ''sicaf-detailed'') (runAuditRules hostUTC sicafData) = [f]"
      and ss: "subItems f = Some subs"
    by (elim exE conjE)
  from ff have f: "f = hd (runAuditRules hostUTC sicafData)"
    by (simp add: sicafData_detailed)
  from ss have 1: "map sub_status subs = [PASS, PASS, FAIL, PASS, FAIL]"
    unfolding f sicafData_run by auto
  have 2: "status f = FAIL" and 3: "recommendation f = Some Rec_RequestSicaf"
    unfolding f sicafData_run by simp_all
  from ff ss 1 2 3
  have c: "\<exists>f subs. filter (\<lambda>r. res_id r = ''sicaf-detailed'') (runAuditRules hostUTC sicafData) = [f]
         \<and> subItems f = Some subs
         \<and> map sub_status subs = [PASS, PASS, FAIL, PASS, FAIL]
         \<and> status f = FAIL \<and> recommendation f = Some Rec_RequestSicaf"
    by (intro exI [of _ f] exI [of _ subs] conjI)
  from b obtain g where "filter (\<lambda>r. res_id r = ''sicaf-missing'') (runAuditRules hostUTC blankData) = [g]"
    and "status g = WARNING"
    by (elim exE conjE)
  then have m: "\<exists>f. filter (\<lambda>r. res_id r = ''sicaf-missing'') (runAuditRules hostUTC blankData) = [f]
         \<and> status f = WARNING"
    by (intro exI [of _ g] conjI)
  have n: "\<not> sicaf_found (sicaf blankData)" by (simp add: blankData_def)
  from pre c n m show ?thesis by (intro conjI) (elim conjE, assumption)+
qed


subsection \<open>Order of the findings\<close>

lemma ruleIndex_ids:
  "ruleIndex ''doc-validation-info-admin'' = 1"
  "ruleIndex ''sicaf-detailed'' = 2" "ruleIndex ''sicaf-missing'' = 2"
  "ruleIndex ''cnpj-match'' = 3" "ruleIndex ''tr-definitive'' = 4"
  "ruleIndex ''value-check-gross'' = 5" "ruleIndex ''contract-date'' = 6"
  "ruleIndex ''rmm-check-detailed'' = 7" "ruleIndex ''rmm-check'' = 7"
  "ruleIndex ''nd-consistency'' = 8"
  by (simp_all add: ruleIndex_def)

lemma slot_sorted:
  "xs = [] \<or> (\<exists>f. xs = [f] \<and> ruleIndex (res_id f) = k) \<Longrightarrow>
   sorted_wrt (<) (map (\<lambda>r. ruleIndex (res_id r)) xs)
   \<and> (\<forall>r \<in> set xs. ruleIndex (res_id r) = k)"
  by auto

lemma docValidation_slot:
  "rule_docValidation data = [] \<or>
   (\<exists>f. rule_docValidation data = [f] \<and> ruleIndex (res_id f) = 1)"
  using rule_docValidation_shape [of data] by (auto simp: ruleIndex_ids)

lemma sicaf_slot:
  "rule_sicaf h data = [] \<or> (\<exists>f. rule_sicaf h data = [f] \<and> ruleIndex (res_id f) = 2)"
  using rule_sicaf_shape [of h data] by (auto simp: ruleIndex_ids)

lemma cnpj_slot:
  "rule_cnpj data = [] \<or> (\<exists>f. rule_cnpj data = [f] \<and> ruleIndex (res_id f) = 3)"
  using rule_cnpj_shape [of data] by (auto simp: ruleIndex_ids)

lemma definitive_slot:
  "rule_definitive data = [] \<or> (\<exists>f. rule_definitive data = [f] \<and> ruleIndex (res_id f) = 4)"
  using rule_definitive_shape [of data] by (auto simp: ruleIndex_ids)

lemma value_slot:
  "rule_value data = [] \<or> (\<exists>f. rule_value data = [f] \<and> ruleIndex (res_id f) = 5)"
  using rule_value_shape [of data] by (auto simp: ruleIndex_ids)

lemma contract_slot:
  "rule_contract h data = [] \<or> (\<exists>f. rule_contract h data = [f] \<and> ruleIndex (res_id f) = 6)"
  using rule_contract_shape [of h data] by (auto simp: ruleIndex_ids)

lemma rmm_slot:
  "rule_rmm data = [] \<or> (\<exists>f. rule_rmm data = [f] \<and> ruleIndex (res_id f) = 7)"
  using rule_rmm_shape [of data] by (auto simp: ruleIndex_ids)

lemma nd_slot:
  "rule_nd data = [] \<or> (\<exists>f. rule_nd data = [f] \<and> ruleIndex (res_id f) = 8)"
  using rule_nd_shape [of data] by (auto simp: ruleIndex_ids)

text \<open>
  C8. The findings come in the order of the rules: the ids of the output, read from the first
  finding to the last, have strictly increasing places in the order document-type guard,
  certificate check, \<open>cnpj-match\<close>, \<open>tr-definitive\<close>, \<open>value-check-gross\<close>,
  \<open>contract-date\<close>, stock-entry check, \<open>nd-consistency\<close>; and every id of the output is one
  of these.
\<close>

theorem findings_in_rule_order:
  "sorted_wrt (<) (map (\<lambda>r. ruleIndex (res_id r)) (runAuditRules h data))
   \<and> (\<forall>r \<in> set (runAuditRules h data). 1 \<le> ruleIndex (res_id r) \<and> ruleIndex (res_id r) \<le> 8)"
proof -
  note s = slot_sorted [OF docValidation_slot [of data]]
    slot_sorted [OF sicaf_slot [of h data]]
    slot_sorted [OF cnpj_slot [of data]]
    slot_sorted [OF definitive_slot [of data]]
    slot_sorted [OF value_slot [of data]]
    slot_sorted [OF contract_slot [of h data]]
    slot_sorted [OF rmm_slot [of data]]
    slot_sorted [OF nd_slot [of data]]
  show ?thesis
    unfolding runAuditRules_def using s
    by (simp add: sorted_wrt_append ball_Un)
qed

theorem findings_in_rule_order_witness:
  "map res_id (runAuditRules hostUTC sicafData) = [''sicaf-detailed'', ''tr-definitive'']
   \<and> sorted_wrt (<) (map (\<lambda>r. ruleIndex (res_id r)) (runAuditRules hostUTC sicafData))"
proof -
  have "map res_id (runAuditRules hostUTC sicafData) = [''sicaf-detailed'', ''tr-definitive'']"
    unfolding sicafData_run by simp
  moreover note findings_in_rule_order [of hostUTC sicafData, THEN conjunct1]
  ultimately show ?thesis by (rule conjI)
qed


subsection \<open>No finding is pending\<close>

lemma certSubItem_status:
  "sub_status (certSubItem h sv c) = PASS \<or> sub_status (certSubItem h sv c) = FAIL"
  by (simp add: certSubItem_def Let_def)

lemma rmmStep_noPending:
  assumes "fst st \<noteq> PENDING" and "list_all (\<lambda>s. sub_status s \<noteq> PENDING) (snd st)"
  shows "fst (rmmStep m st kv) \<noteq> PENDING
    \<and> list_all (\<lambda>s. sub_status s \<noteq> PENDING) (snd (rmmStep m st kv))"
  using assms by (simp add: rmmStep_def Let_def split: option.split)

lemma rmmLoop_noPending:
  "fst st \<noteq> PENDING \<Longrightarrow> list_all (\<lambda>s. sub_status s \<noteq> PENDING) (snd st) \<Longrightarrow>
   fst (foldl (rmmStep m) st kvs) \<noteq> PENDING
    \<and> list_all (\<lambda>s. sub_status s \<noteq> PENDING) (snd (foldl (rmmStep m) st kvs))"
proof (induction kvs arbitrary: st)
  case Nil
  then show ?case by simp
next
  case (Cons kv kvs)
  from rmmStep_noPending [OF Cons.prems, of m kv]
  show ?case using Cons.IH [of "rmmStep m st kv"] by simp
qed

lemma rmmDetailed_noPending: "noPending (rmmDetailed data)"
proof -
  have "fst (foldl (rmmStep m) (PASS, []) kvs) \<noteq> PENDING
    \<and> list_all (\<lambda>s. sub_status s \<noteq> PENDING) (snd (foldl (rmmStep m) (PASS, []) kvs))" for m kvs
    by (rule rmmLoop_noPending) simp_all
  then show ?thesis
    by (simp add: noPending_def rmmDetailed_def Let_def)
qed

lemma certSubItem_noPending: "sub_status (certSubItem h sv c) \<noteq> PENDING"
  by (simp add: certSubItem_def Let_def)

lemma docValidation_noPending: "list_all noPending (rule_docValidation data)"
  by (simp add: rule_docValidation_def noPending_def)

lemma sicaf_noPending: "list_all noPending (rule_sicaf h data)"
  by (simp add: rule_sicaf_def Let_def noPending_def list_all_iff certSubItem_noPending)

lemma cnpj_noPending: "list_all noPending (rule_cnpj data)"
  by (simp add: rule_cnpj_def Let_def noPending_def)

lemma definitive_noPending: "list_all noPending (rule_definitive data)"
  by (simp add: rule_definitive_def noPending_def)

lemma valueCheck_noPending: "noPending (valueCheck g l t)"
  by (simp add: valueCheck_def Let_def noPending_def)

lemma value_noPending: "list_all noPending (rule_value data)"
  by (cases "grossValue (notaFiscal data)"; cases "tr_totalValue (termoRecebimento data)")
     (simp_all add: rule_value_def valueCheck_noPending)

lemma contract_noPending: "list_all noPending (rule_contract h data)"
  by (simp add: rule_contract_def noPending_def split: option.split)

lemma rmm_noPending: "list_all noPending (rule_rmm data)"
  using rmmDetailed_noPending [of data]
  by (simp add: rule_rmm_def Let_def) (simp add: noPending_def)

lemma nd_noPending: "list_all noPending (rule_nd data)"
  by (simp add: rule_nd_def Let_def noPending_def)

text \<open>
  C10. No finding and no sub-finding of the output has status \<open>PENDING\<close>, although the status
  type has that member and the certificate sub-check starts from it.
\<close>

theorem no_pending_status:
  "\<forall>r \<in> set (runAuditRules h data).
     status r \<noteq> PENDING
     \<and> (\<forall>subs. subItems r = Some subs \<longrightarrow> (\<forall>s \<in> set subs. sub_status s \<noteq> PENDING))"
proof -
  have "list_all noPending (runAuditRules h data)"
    unfolding runAuditRules_def
    by (simp add: docValidation_noPending sicaf_noPending cnpj_noPending definitive_noPending
        value_noPending contract_noPending rmm_noPending nd_noPending)
  then show ?thesis
    by (auto simp: noPending_def list_all_iff)
qed

theorem no_pending_status_witness:
  "hd (runAuditRules hostUTC sicafData) \<in> set (runAuditRules hostUTC sicafData)
   \<and> status (hd (runAuditRules hostUTC sicafData)) \<noteq> PENDING
   \<and> (\<exists>subs. subItems (hd (runAuditRules hostUTC sicafData)) = Some subs
         \<and> hd subs \<in> set subs \<and> sub_status (hd subs) \<noteq> PENDING)"
proof -
  have m: "hd (runAuditRules hostUTC sicafData) \<in> set (runAuditRules hostUTC sicafData)"
    unfolding sicafData_run by simp
  obtain subs where s: "subItems (hd (runAuditRules hostUTC sicafData)) = Some subs"
    and n: "hd subs \<in> set subs"
    unfolding sicafData_run by simp
  note t = no_pending_status [of hostUTC sicafData, THEN bspec, OF m]
  from t have 1: "status (hd (runAuditRules hostUTC sicafData)) \<noteq> PENDING"
    by (rule conjunct1)
  from t have "\<forall>s \<in> set subs. sub_status s \<noteq> PENDING"
    using s by (elim conjE allE [of _ subs] impE)
  then have 2: "sub_status (hd subs) \<noteq> PENDING"
    using n by (rule bspec)
  from s n 2 have "\<exists>subs. subItems (hd (runAuditRules hostUTC sicafData)) = Some subs
         \<and> hd subs \<in> set subs \<and> sub_status (hd subs) \<noteq> PENDING"
    by (intro exI [of _ subs] conjI)
  with m 1 show ?thesis by (intro conjI)
qed

subsection \<open>Aggregation of line items\<close>


lemma map_of_map_set: "map_of (map_set m k v) = (map_of m)(k \<mapsto> v)"
  by (induction m) (auto simp: fun_eq_iff)

lemma keys_map_set:
  "map fst (map_set m k v) = (if k \<in> set (map fst m) then map fst m else map fst m @ [k])"
  by (induction m) (force+)

lemma map_has_keys: "map_has m k \<longleftrightarrow> k \<in> set (map fst m)"
  by (simp add: map_has_def map_of_eq_None_iff)


lemma addItem_keys:
  "map fst (addItem m item) =
     (if itemKey item \<in> set (map fst m) then map fst m else map fst m @ [itemKey item])"
proof (cases "map_of m (itemKey item)")
  case None
  then have "itemKey item \<notin> set (map fst m)"
    by (simp add: map_of_eq_None_iff)
  with None show ?thesis
    by (simp add: addItem_def Let_def map_has_def map_of_map_set keys_map_set)
next
  case (Some e)
  then have "itemKey item \<in> set (map fst m)"
    by (metis map_of_eq_None_iff option.distinct(1) set_map)
  with Some show ?thesis
    by (simp add: addItem_def Let_def map_has_def keys_map_set)
qed

lemma aggregateItems_snoc: "aggregateItems (items @ [x]) = addItem (aggregateItems items) x"
  by (simp add: aggregateItems_def)

lemma aggregateItems_keys:
  "distinct (map fst (aggregateItems items))
   \<and> set (map fst (aggregateItems items)) = itemKey ` set items"
proof (induction items rule: rev_induct)
  case Nil
  then show ?case by (simp add: aggregateItems_def)
next
  case (snoc x xs)
  then show ?case
    by (auto simp: aggregateItems_snoc addItem_keys)
qed









subsection \<open>Matching invoice groups with stock-entry groups\<close>

lemma fuzzyLoop_find:
  "fuzzyLoop toks rs = find (\<lambda>r. \<exists>token \<in> set toks. str_includes (toLowerCase (agg_description r)) token) rs"
  by (induction rs) (simp_all add: Let_def list_ex_iff)

lemma findRmmMatch_guarded:
  "findRmmMatch rmmMap key nfItem =
     (case map_of rmmMap key of
        Some r \<Rightarrow> Some r
      | None \<Rightarrow> if truthy (agg_partNumber nfItem) then spec_fuzzyMatch nfItem rmmMap else None)"
  by (simp add: findRmmMatch_def Let_def fuzzyLoop_find fuzzyTokens_def spec_fuzzyMatch_def
      split: option.split)

lemma rmmStep_sub:
  "\<exists>s. snd (rmmStep rmmMap st kv) = snd st @ [s] \<and> sub_status s = subStatusOf rmmMap kv"
proof (cases "findRmmMatch rmmMap (fst kv) (snd kv)")
  case None
  then show ?thesis by (simp add: rmmStep_def Let_def subStatusOf_def)
next
  case (Some r)
  then show ?thesis by (simp add: rmmStep_def Let_def subStatusOf_def)
qed

lemma rmmLoop_statuses:
  "map sub_status (snd (foldl (rmmStep rmmMap) st nfMap))
     = map sub_status (snd st) @ map (subStatusOf rmmMap) nfMap"
proof (induction nfMap arbitrary: st)
  case Nil
  then show ?case by simp
next
  case (Cons kv kvs)
  from rmmStep_sub [of rmmMap st kv] obtain s
    where "snd (rmmStep rmmMap st kv) = snd st @ [s]" and "sub_status s = subStatusOf rmmMap kv"
    by (elim exE conjE)
  then have "map sub_status (snd (rmmStep rmmMap st kv)) = map sub_status (snd st) @ [subStatusOf rmmMap kv]"
    by simp
  with Cons.IH [of "rmmStep rmmMap st kv"] show ?case by simp
qed

lemma rmmDetailed_statuses:
  assumes "nf_items (notaFiscal data) \<noteq> []"
  shows "subItems (rmmDetailed data) \<noteq> None
    \<and> map sub_status (case subItems (rmmDetailed data) of None \<Rightarrow> [] | Some subs \<Rightarrow> subs)
        = map (subStatusOf (aggregateItems (rmm_items (rmm data))))
              (aggregateItems (nf_items (notaFiscal data)))"
proof -
  let ?nfMap = "aggregateItems (nf_items (notaFiscal data))"
  let ?rmmMap = "aggregateItems (rmm_items (rmm data))"
  have l: "map sub_status (snd (foldl (rmmStep ?rmmMap) (PASS, []) ?nfMap)) = map (subStatusOf ?rmmMap) ?nfMap"
    using rmmLoop_statuses [of ?rmmMap "(PASS, [])" ?nfMap] by simp
  from assms obtain x xs where "nf_items (notaFiscal data) = x # xs"
    by (cases "nf_items (notaFiscal data)") auto
  then have "itemKey x \<in> set (map fst ?nfMap)"
    using aggregateItems_keys [of "nf_items (notaFiscal data)"] by simp
  then have "?nfMap \<noteq> []" by auto
  with l have ne: "snd (foldl (rmmStep ?rmmMap) (PASS, []) ?nfMap) \<noteq> []"
    by (cases "snd (foldl (rmmStep ?rmmMap) (PASS, []) ?nfMap)") auto
  from assms ne l show ?thesis
    by (simp add: rmmDetailed_def Let_def)
qed


lemma filter_rmm_detailed:
  "filter (\<lambda>r. res_id r = ''rmm-check-detailed'') (runAuditRules h data)
     = filter (\<lambda>r. res_id r = ''rmm-check-detailed'') (rule_rmm data)"
  by (simp add: runAuditRules_def other_rule_filters)

text \<open>
  C2, as amended. For every aggregated invoice group the engine looks the key up in the
  aggregated stock-entry map; an exact match is the match, and the fuzzy fallback does not run.
  When the lookup finds nothing and the part number of the invoice group is present (not null,
  not empty), the match is the first stock-entry group whose lower-cased description contains
  one of the lower-cased words of more than 3 characters of the invoice group's description.
  When the lookup finds nothing and the part number is absent, there is no match. The
  sub-findings of \<open>rmm-check-detailed\<close> are those of the invoice groups, in their order.
\<close>

theorem rmm_match_guarded:
  "findRmmMatch rmmMap key nfItem =
     (case map_of rmmMap key of
        Some r \<Rightarrow> Some r
      | None \<Rightarrow> if truthy (agg_partNumber nfItem) then spec_fuzzyMatch nfItem rmmMap else None)
   \<and> (nf_found (notaFiscal data) \<and> isMaterial (notaFiscal data) \<and> rmm_found (rmm data)
        \<and> nf_items (notaFiscal data) \<noteq> [] \<longrightarrow>
       (\<exists>f subs. filter (\<lambda>r. res_id r = ''rmm-check-detailed'') (runAuditRules h data) = [f]
          \<and> subItems f = Some subs
          \<and> map sub_status subs
              = map (subStatusOf (aggregateItems (rmm_items (rmm data))))
                    (aggregateItems (nf_items (notaFiscal data)))))"
proof (intro conjI impI)
  show "findRmmMatch rmmMap key nfItem =
     (case map_of rmmMap key of
        Some r \<Rightarrow> Some r
      | None \<Rightarrow> if truthy (agg_partNumber nfItem) then spec_fuzzyMatch nfItem rmmMap else None)"
    by (rule findRmmMatch_guarded)
next
  assume a: "nf_found (notaFiscal data) \<and> isMaterial (notaFiscal data) \<and> rmm_found (rmm data)
        \<and> nf_items (notaFiscal data) \<noteq> []"
  then have r: "rule_rmm data = [rmmDetailed data]"
    by (simp add: rule_rmm_def Let_def)
  from a rmmDetailed_statuses [of data] obtain subs
    where s: "subItems (rmmDetailed data) = Some subs"
      and m: "map sub_status subs = map (subStatusOf (aggregateItems (rmm_items (rmm data))))
                    (aggregateItems (nf_items (notaFiscal data)))"
    by (cases "subItems (rmmDetailed data)") auto
  have f: "filter (\<lambda>r. res_id r = ''rmm-check-detailed'') (runAuditRules h data) = [rmmDetailed data]"
    unfolding filter_rmm_detailed r by (simp add: rmmDetailed_id)
  from f s m show "\<exists>f subs. filter (\<lambda>r. res_id r = ''rmm-check-detailed'') (runAuditRules h data) = [f]
          \<and> subItems f = Some subs
          \<and> map sub_status subs
              = map (subStatusOf (aggregateItems (rmm_items (rmm data))))
                    (aggregateItems (nf_items (notaFiscal data)))"
    by (intro exI [of _ "rmmDetailed data"] exI [of _ subs] conjI)
qed

lemma lower_examples:
  "toLowerCase ''Parafuso sextavado'' = ''parafuso sextavado''"
  "toLowerCase ''PARAFUSO SEXTAVADO M8'' = ''parafuso sextavado m8''"
  by (simp_all add: toLowerCase_def toLowerChar_def isUpper_def)

lemma fuzzy_keys:
  "itemKey \<lparr>description = ''Parafuso sextavado'', partNumber = None, quantity = 10, unit = None\<rparr>
     = ''parafusosextavado''"
  "itemKey \<lparr>description = ''Parafuso sextavado'', partNumber = Some ''PN-77'', quantity = 10, unit = None\<rparr>
     = ''pn77''"
  "itemKey \<lparr>description = ''PARAFUSO SEXTAVADO M8'', partNumber = None, quantity = 7, unit = None\<rparr>
     = ''parafusosextavadom8''"
  by (simp_all add: itemKey_def normalize_def truthy_def toLowerCase_def
      toLowerChar_def isUpper_def isAsciiLetter_def isDigit_def)

lemma fuzzyMaps:
  "fuzzyNfMap None = [(''parafusosextavado'',
      \<lparr>totalQty = 10, agg_description = ''Parafuso sextavado'', agg_partNumber = None,
        originalCount = 1\<rparr>)]"
  "fuzzyNfMap (Some ''PN-77'') = [(''pn77'',
      \<lparr>totalQty = 10, agg_description = ''Parafuso sextavado'', agg_partNumber = Some ''PN-77'',
        originalCount = 1\<rparr>)]"
  "fuzzyRmmMap = [(''parafusosextavadom8'',
      \<lparr>totalQty = 7, agg_description = ''PARAFUSO SEXTAVADO M8'', agg_partNumber = None,
        originalCount = 1\<rparr>)]"
  by (simp_all add: fuzzyNfMap_def fuzzyRmmMap_def fuzzyData_def blankData_def aggregateItems_def
      addItem_def Let_def map_has_def fuzzy_keys)

lemma fuzzy_tokens:
  "filter (\<lambda>w. length w > 3) (split_on (CHR '' '') ''parafuso sextavado'')
     = [''parafuso'', ''sextavado'']"
  by simp

lemma fuzzy_includes: "str_includes ''parafuso sextavado m8'' ''parafuso''"
  by simp

lemma fuzzy_run:
  "rule_rmm (fuzzyData None) =
     [\<lparr>res_id = ''rmm-check-detailed'', title = Title_RmmDetailed,
        res_description = Desc_RmmDetailed, status = FAIL, details = Det_RmmItemsNotFound,
        recommendation = None,
        subItems = Some [\<lparr>label = ''S/N - Parafuso sextavado...'', sub_status = FAIL,
          sub_details = SD_ItemNotInRmm\<rparr>]\<rparr>]"
  "rule_rmm (fuzzyData (Some ''PN-77'')) =
     [\<lparr>res_id = ''rmm-check-detailed'', title = Title_RmmDetailed,
        res_description = Desc_RmmDetailed, status = WARNING, details = Det_RmmQtyDivergence,
        recommendation = None,
        subItems = Some [\<lparr>label = ''PN-77 - Parafuso sextavado...'', sub_status = WARNING,
          sub_details = SD_QtyDivergence 10 7\<rparr>]\<rparr>]"
proof -
  have a: "aggregateItems (nf_items (notaFiscal (fuzzyData pn))) = fuzzyNfMap pn" for pn
    by (simp add: fuzzyNfMap_def)
  have b: "aggregateItems (rmm_items (rmm (fuzzyData pn))) = fuzzyRmmMap" for pn
    by (simp add: fuzzyRmmMap_def fuzzyData_def)
  have c: "nf_found (notaFiscal (fuzzyData pn)) \<and> isMaterial (notaFiscal (fuzzyData pn))
      \<and> rmm_found (rmm (fuzzyData pn)) \<and> nf_items (notaFiscal (fuzzyData pn)) \<noteq> []" for pn
    by (simp add: fuzzyData_def blankData_def)
  show "rule_rmm (fuzzyData None) =
     [\<lparr>res_id = ''rmm-check-detailed'', title = Title_RmmDetailed,
        res_description = Desc_RmmDetailed, status = FAIL, details = Det_RmmItemsNotFound,
        recommendation = None,
        subItems = Some [\<lparr>label = ''S/N - Parafuso sextavado...'', sub_status = FAIL,
          sub_details = SD_ItemNotInRmm\<rparr>]\<rparr>]"
    using c [of None]
    by (simp add: rule_rmm_def rmmDetailed_def Let_def a b fuzzyMaps rmmStep_def
        findRmmMatch_def truthy_def itemLabel_def js_or_def)
  show "rule_rmm (fuzzyData (Some ''PN-77'')) =
     [\<lparr>res_id = ''rmm-check-detailed'', title = Title_RmmDetailed,
        res_description = Desc_RmmDetailed, status = WARNING, details = Det_RmmQtyDivergence,
        recommendation = None,
        subItems = Some [\<lparr>label = ''PN-77 - Parafuso sextavado...'', sub_status = WARNING,
          sub_details = SD_QtyDivergence 10 7\<rparr>]\<rparr>]"
    using c [of "Some ''PN-77''"] tolerance_examples(8)
    by (simp add: rule_rmm_def rmmDetailed_def Let_def a b fuzzyMaps rmmStep_def
        findRmmMatch_def truthy_def itemLabel_def js_or_def fuzzyTokens_def
        lower_examples fuzzy_tokens fuzzy_includes)
qed

text \<open>C2 as stated fails for an invoice group without part number: the lookup finds
  nothing, the fallback as stated accepts the stock-entry group, and the engine has no match.\<close>

theorem fuzzy_without_part_number_counterexample:
  "fuzzyNfMap None = [(''parafusosextavado'',
      \<lparr>totalQty = 10, agg_description = ''Parafuso sextavado'', agg_partNumber = None,
        originalCount = 1\<rparr>)]
   \<and> map_of fuzzyRmmMap ''parafusosextavado'' = None
   \<and> spec_match fuzzyRmmMap ''parafusosextavado''
        \<lparr>totalQty = 10, agg_description = ''Parafuso sextavado'', agg_partNumber = None,
          originalCount = 1\<rparr>
      = Some \<lparr>totalQty = 7, agg_description = ''PARAFUSO SEXTAVADO M8'', agg_partNumber = None,
          originalCount = 1\<rparr>
   \<and> findRmmMatch fuzzyRmmMap ''parafusosextavado''
        \<lparr>totalQty = 10, agg_description = ''Parafuso sextavado'', agg_partNumber = None,
          originalCount = 1\<rparr>
      = None
   \<and> rule_rmm (fuzzyData None) =
     [\<lparr>res_id = ''rmm-check-detailed'', title = Title_RmmDetailed,
        res_description = Desc_RmmDetailed, status = FAIL, details = Det_RmmItemsNotFound,
        recommendation = None,
        subItems = Some [\<lparr>label = ''S/N - Parafuso sextavado...'', sub_status = FAIL,
          sub_details = SD_ItemNotInRmm\<rparr>]\<rparr>]"
  by (simp add: fuzzyMaps spec_match_def spec_fuzzyMatch_def findRmmMatch_def truthy_def
      lower_examples fuzzy_tokens fuzzy_includes fuzzy_run)


theorem rmm_match_guarded_witness:
  "nf_found (notaFiscal (fuzzyData (Some ''PN-77''))) \<and> isMaterial (notaFiscal (fuzzyData (Some ''PN-77'')))
   \<and> rmm_found (rmm (fuzzyData (Some ''PN-77'')))
   \<and> map_of fuzzyRmmMap ''pn77'' = None
   \<and> (\<exists>f subs. filter (\<lambda>r. res_id r = ''rmm-check-detailed'')
                   (runAuditRules hostUTC (fuzzyData (Some ''PN-77''))) = [f]
         \<and> subItems f = Some subs \<and> map sub_status subs = [WARNING])"
proof -
  have c: "nf_found (notaFiscal (fuzzyData (Some ''PN-77''))) \<and> isMaterial (notaFiscal (fuzzyData (Some ''PN-77'')))
      \<and> rmm_found (rmm (fuzzyData (Some ''PN-77'')))
      \<and> nf_items (notaFiscal (fuzzyData (Some ''PN-77''))) \<noteq> []"
    by (simp add: fuzzyData_def blankData_def)
  have n: "map_of fuzzyRmmMap ''pn77'' = None"
    by (simp add: fuzzyMaps)
  note t = rmm_match_guarded [of _ _ _ "fuzzyData (Some ''PN-77'')" hostUTC,
      THEN conjunct2, THEN mp, OF c]
  then obtain f subs
    where f: "filter (\<lambda>r. res_id r = ''rmm-check-detailed'')
                   (runAuditRules hostUTC (fuzzyData (Some ''PN-77''))) = [f]"
      and s: "subItems f = Some subs"
    by (elim exE conjE)
  from f have "f = hd (rule_rmm (fuzzyData (Some ''PN-77'')))"
    unfolding filter_rmm_detailed fuzzy_run by simp
  with s have "map sub_status subs = [WARNING]"
    unfolding fuzzy_run by auto
  with f s have "\<exists>f subs. filter (\<lambda>r. res_id r = ''rmm-check-detailed'')
                   (runAuditRules hostUTC (fuzzyData (Some ''PN-77''))) = [f]
         \<and> subItems f = Some subs \<and> map sub_status subs = [WARNING]"
    by (intro exI [of _ f] exI [of _ subs] conjI)
  with c n show ?thesis by simp
qed

subsection \<open>The CNPJ failsafe\<close>

lemma normId_code:
  "(case c of None \<Rightarrow> [] | Some s \<Rightarrow> if s = [] then [] else stripNonDigits s) = normId c"
  by (cases c) (simp_all add: normId_def stripNonDigits_def)

lemma cnpjFailsafe_cases:
  "cnpjFailsafe data =
     (if replaceCond data
      then data\<lparr>notaFiscal := (notaFiscal data)\<lparr>nf_cnpj := firstMatch data\<rparr>\<rparr>
      else data)"
proof -
  have "possibleCnpjs (notaFiscal data) = [] \<Longrightarrow> \<not> truthy (firstMatch data)"
    by (simp add: firstMatch_def truthy_def)
  then show ?thesis
    unfolding cnpjFailsafe_def replaceCond_def Let_def normId_code
    by (auto simp: normId_def [symmetric] firstMatch_def)
qed

lemma firstMatch_norm:
  "firstMatch data = Some m \<Longrightarrow> stripNonDigits m = normId (tr_cnpj (termoRecebimento data))"
  by (auto simp: firstMatch_def find_Some_iff)

lemma replaced_norm:
  assumes "replaceCond data"
  shows "normId (nf_cnpj (notaFiscal (cnpjFailsafe data))) = normId (tr_cnpj (termoRecebimento data))"
    and "tr_cnpj (termoRecebimento (cnpjFailsafe data)) = tr_cnpj (termoRecebimento data)"
proof -
  from assms obtain m where m: "firstMatch data = Some m"
    by (auto simp: replaceCond_def truthy_def split: option.splits)
  with assms firstMatch_norm [OF m]
  show "normId (nf_cnpj (notaFiscal (cnpjFailsafe data))) = normId (tr_cnpj (termoRecebimento data))"
    by (simp add: cnpjFailsafe_cases normId_def)
  from assms show "tr_cnpj (termoRecebimento (cnpjFailsafe data)) = tr_cnpj (termoRecebimento data)"
    by (simp add: cnpjFailsafe_cases)
qed

lemma cnpjFailsafe_idem: "cnpjFailsafe (cnpjFailsafe data) = cnpjFailsafe data"
proof (cases "replaceCond data")
  case False
  then show ?thesis by (simp add: cnpjFailsafe_cases)
next
  case True
  from replaced_norm [OF True] have "\<not> replaceCond (cnpjFailsafe data)"
    by (simp add: replaceCond_def)
  then show ?thesis
    by (simp add: cnpjFailsafe_cases [of "cnpjFailsafe data"])
qed

lemma replaced_changes:
  "replaceCond data \<longleftrightarrow> nf_cnpj (notaFiscal (cnpjFailsafe data)) \<noteq> nf_cnpj (notaFiscal data)"
proof
  assume r: "replaceCond data"
  show "nf_cnpj (notaFiscal (cnpjFailsafe data)) \<noteq> nf_cnpj (notaFiscal data)"
  proof
    assume "nf_cnpj (notaFiscal (cnpjFailsafe data)) = nf_cnpj (notaFiscal data)"
    with replaced_norm(1) [OF r] r show False
      by (simp add: replaceCond_def)
  qed
next
  assume "nf_cnpj (notaFiscal (cnpjFailsafe data)) \<noteq> nf_cnpj (notaFiscal data)"
  then show "replaceCond data"
    by (auto simp: cnpjFailsafe_cases split: if_splits)
qed

text \<open>
  C7, as amended. The failsafe is idempotent. It replaces the identifier of the invoice with
  the first value of \<open>possibleCnpjs\<close> whose normalized form equals that of the receipt's
  identifier exactly when the invoice and the receipt are found, the identifier of the receipt
  is present (not null, not empty), the normalized identifiers differ, and that first matching
  value exists and is not the empty string. It changes no other field, and when it replaces,
  the identifier of the invoice does change.
\<close>

theorem cnpjFailsafe_idempotent:
  "cnpjFailsafe (cnpjFailsafe data) = cnpjFailsafe data
   \<and> cnpjFailsafe data =
       (if replaceCond data
        then data\<lparr>notaFiscal := (notaFiscal data)\<lparr>nf_cnpj := firstMatch data\<rparr>\<rparr>
        else data)
   \<and> (replaceCond data \<longleftrightarrow>
        nf_cnpj (notaFiscal (cnpjFailsafe data)) \<noteq> nf_cnpj (notaFiscal data))"
  using cnpjFailsafe_idem [of data] cnpjFailsafe_cases [of data] replaced_changes [of data]
  by (intro conjI)

lemma strip_examples:
  "stripNonDigits ''11.111.111/0001-11'' = ''11111111000111''"
  "stripNonDigits ''22.222.222/0001-22'' = ''22222222000122''"
  "stripNonDigits ''22222222000122'' = ''22222222000122''"
  "stripNonDigits ''S/N'' = []"
  "stripNonDigits [] = []"
  by (simp_all add: stripNonDigits_def isDigit_def)

text \<open>C7 as stated fails when the first matching candidate is the empty string: the
  stated condition holds (the receipt's \<open>S/N\<close> and the candidate both normalize to the
  empty string, the invoice's identifier does not), and the failsafe leaves the bundle as it
  is.\<close>

theorem empty_match_counterexample:
  "spec_replaceCond (failsafeData (Some ''S/N'') [[]])
   \<and> cnpjFailsafe (failsafeData (Some ''S/N'') [[]]) = failsafeData (Some ''S/N'') [[]]"
  by (simp add: spec_replaceCond_def cnpjFailsafe_def failsafeData_def blankData_def normId_def
      strip_examples truthy_def Let_def)

theorem cnpjFailsafe_idempotent_witness:
  "replaceCond (failsafeData (Some ''22.222.222/0001-22'') [''11.111.111/0001-11'', ''22222222000122''])
   \<and> nf_cnpj (notaFiscal (cnpjFailsafe
        (failsafeData (Some ''22.222.222/0001-22'') [''11.111.111/0001-11'', ''22222222000122''])))
      = Some ''22222222000122''
   \<and> cnpjFailsafe (cnpjFailsafe
        (failsafeData (Some ''22.222.222/0001-22'') [''11.111.111/0001-11'', ''22222222000122'']))
      = cnpjFailsafe
        (failsafeData (Some ''22.222.222/0001-22'') [''11.111.111/0001-11'', ''22222222000122''])"
proof -
  let ?d = "failsafeData (Some ''22.222.222/0001-22'') [''11.111.111/0001-11'', ''22222222000122'']"
  have m: "firstMatch ?d = Some ''22222222000122''"
    by (simp add: firstMatch_def failsafeData_def blankData_def normId_def strip_examples)
  have c: "replaceCond ?d"
    unfolding replaceCond_def m
    by (simp add: failsafeData_def blankData_def normId_def strip_examples truthy_def)
  note t = cnpjFailsafe_idempotent [of ?d]
  from t have 1: "cnpjFailsafe (cnpjFailsafe ?d) = cnpjFailsafe ?d" by (rule conjunct1)
  from t have "cnpjFailsafe ?d =
       (if replaceCond ?d then ?d\<lparr>notaFiscal := (notaFiscal ?d)\<lparr>nf_cnpj := firstMatch ?d\<rparr>\<rparr> else ?d)"
    by (elim conjE)
  with c m have 2: "nf_cnpj (notaFiscal (cnpjFailsafe ?d)) = Some ''22222222000122''"
    by simp
  from c 2 1 show ?thesis by (intro conjI)
qed


subsection \<open>CNPJ consistency\<close>

text \<open>The rule by the number of distinct normalized identifiers: more than one gives FAIL
  with every source and its raw value, one gives PASS, none gives no finding. Identifiers that
  differ in punctuation only count as one.\<close>

lemma set_add_props:
  "distinct s \<Longrightarrow> distinct (set_add s x) \<and> set (set_add s x) = insert x (set s)"
  by (auto simp: set_add_def)

lemma addCnpj_props:
  assumes "distinct (fst st)"
  shows "distinct (fst (addCnpj lbl c st))
    \<and> set (fst (addCnpj lbl c st))
         = set (fst st) \<union> (case c of None \<Rightarrow> {} | Some raw \<Rightarrow> if raw = [] then {} else {stripNonDigits raw})
    \<and> snd (addCnpj lbl c st)
         = snd st @ (case c of None \<Rightarrow> [] | Some raw \<Rightarrow> if raw = [] then [] else [lbl @ '': '' @ raw])"
  using assms set_add_props [of "fst st"]
  by (cases c) (auto simp: addCnpj_def)

lemma collectCnpjs_props:
  "distinct (fst (collectCnpjs data))
   \<and> set (fst (collectCnpjs data)) = (\<lambda>lr. stripNonDigits (snd lr)) ` set (cnpjRaws data)
   \<and> snd (collectCnpjs data) = map (\<lambda>lr. fst lr @ '': '' @ snd lr) (cnpjRaws data)"
proof -
  let ?s0 = "([], []) :: string list \<times> string list"
  let ?s1 = "addCnpj ''NF'' (nf_cnpj (notaFiscal data)) ?s0"
  let ?s2 = "addCnpj ''Termo'' (tr_cnpj (termoRecebimento data)) ?s1"
  let ?s3 = "addCnpj ''SICAF'' (sicaf_cnpj (sicaf data)) ?s2"
  have 0: "distinct (fst ?s0)" by simp
  note 1 = addCnpj_props [OF 0, of "''NF''" "nf_cnpj (notaFiscal data)"]
  note 2 = addCnpj_props [OF conjunct1 [OF 1], of "''Termo''" "tr_cnpj (termoRecebimento data)"]
  note 3 = addCnpj_props [OF conjunct1 [OF 2], of "''SICAF''" "sicaf_cnpj (sicaf data)"]
  have c: "collectCnpjs data = ?s3" by (simp add: collectCnpjs_def)
  show ?thesis
    unfolding c using 1 2 3
    by (cases "nf_cnpj (notaFiscal data)"; cases "tr_cnpj (termoRecebimento data)";
        cases "sicaf_cnpj (sicaf data)")
       (simp_all add: cnpjRaws_def)
qed

lemma rule_cnpj_by_count:
  "(card ((\<lambda>lr. stripNonDigits (snd lr)) ` set (cnpjRaws data)) > 1 \<longrightarrow>
      (\<exists>f. rule_cnpj data = [f] \<and> status f = FAIL
         \<and> details f = Det_CnpjDivergence (map (\<lambda>lr. fst lr @ '': '' @ snd lr) (cnpjRaws data))))
   \<and> (card ((\<lambda>lr. stripNonDigits (snd lr)) ` set (cnpjRaws data)) = 1 \<longrightarrow>
      (\<exists>f. rule_cnpj data = [f] \<and> status f = PASS
         \<and> details f = Det_CnpjConsistent
              (js_or (nf_cnpj (notaFiscal data)) (tr_cnpj (termoRecebimento data)))))
   \<and> (card ((\<lambda>lr. stripNonDigits (snd lr)) ` set (cnpjRaws data)) = 0 \<longrightarrow> rule_cnpj data = [])"
proof -
  from collectCnpjs_props [of data]
  have l: "length (fst (collectCnpjs data)) = card ((\<lambda>lr. stripNonDigits (snd lr)) ` set (cnpjRaws data))"
    and s: "snd (collectCnpjs data) = map (\<lambda>lr. fst lr @ '': '' @ snd lr) (cnpjRaws data)"
    by (metis distinct_card, simp)
  show ?thesis
    unfolding l [symmetric] s [symmetric] by (simp add: rule_cnpj_def Let_def)
qed

lemma punctuation_ignored:
  assumes "a \<noteq> []" and "b \<noteq> []" and "stripNonDigits a = stripNonDigits b"
  shows "\<exists>f. rule_cnpj (cnpjData (Some a) (Some b)) = [f] \<and> status f = PASS"
  using assms
  by (simp add: rule_cnpj_def collectCnpjs_def addCnpj_def set_add_def cnpjData_def blankData_def
      Let_def)

lemma filter_cnpj_id:
  "filter (\<lambda>r. res_id r = ''cnpj-match'') (runAuditRules h data) = rule_cnpj data"
  using rule_cnpj_shape [of data]
  by (simp add: runAuditRules_def other_rule_filters filter_id_all)

lemma strip_examples2:
  "stripNonDigits ''12.345.678/0001-99'' = ''12345678000199''"
  "stripNonDigits ''12345678000199'' = ''12345678000199''"
  by (simp_all add: stripNonDigits_def isDigit_def)

lemma cnpj_examples:
  "rule_cnpj (cnpjData (Some ''12.345.678/0001-99'') (Some ''12345678000199'')) =
     [\<lparr>res_id = ''cnpj-match'', title = Title_CnpjConsistency,
        res_description = Desc_CnpjSupplier, status = PASS,
        details = Det_CnpjConsistent (Some ''12.345.678/0001-99''),
        recommendation = None, subItems = None\<rparr>]"
  "rule_cnpj (cnpjData (Some ''11.111.111/0001-11'') (Some ''22.222.222/0001-22'')) =
     [\<lparr>res_id = ''cnpj-match'', title = Title_CnpjConsistency,
        res_description = Desc_CnpjMustMatch, status = FAIL,
        details = Det_CnpjDivergence [''NF: 11.111.111/0001-11'', ''Termo: 22.222.222/0001-22''],
        recommendation = Some Rec_CheckSameProcess, subItems = None\<rparr>]"
  "rule_cnpj blankData = []"
  by (simp_all add: rule_cnpj_def collectCnpjs_def addCnpj_def set_add_def cnpjData_def
      blankData_def Let_def js_or_def truthy_def strip_examples strip_examples2)

text \<open>
  C5 at a bundle in which only the certificate carries an identifier: the set of normalized
  identifiers holds one value and the rule emits the PASS finding, but the text of the finding
  interpolates \<open>data.notaFiscal.cnpj || data.termoRecebimento.cnpj\<close>, which is \<open>null\<close>
  here, so the finding does not name the shared value.
\<close>

theorem cnpj_pass_names_null:
  "filter (\<lambda>r. res_id r = ''cnpj-match'') (runAuditRules h sicafOnlyCnpjData) =
     [\<lparr>res_id = ''cnpj-match'', title = Title_CnpjConsistency,
        res_description = Desc_CnpjSupplier, status = PASS,
        details = Det_CnpjConsistent None,
        recommendation = None, subItems = None\<rparr>]"
  unfolding filter_cnpj_id
  by (simp add: rule_cnpj_def collectCnpjs_def addCnpj_def set_add_def sicafOnlyCnpjData_def
      blankData_def Let_def js_or_def truthy_def)


subsection \<open>Dependence on the host\<close>

lemma bulletin_rules:
  "rule_docValidation bulletinData = []"
  "rule_sicaf h bulletinData =
     [\<lparr>res_id = ''sicaf-missing'', title = Title_SicafValidation,
        res_description = Desc_SicafMissing, status = WARNING, details = Det_SicafMissing,
        recommendation = None, subItems = None\<rparr>]"
  "rule_cnpj bulletinData = []"
  "rule_definitive bulletinData =
     [\<lparr>res_id = ''tr-definitive'', title = Title_ReceiptTerm,
        res_description = Desc_Definitive, status = FAIL, details = Det_NotDefinitive,
        recommendation = Some Rec_ReturnReceipt, subItems = None\<rparr>]"
  "rule_value bulletinData = []"
  "rule_rmm bulletinData = []"
  "rule_nd bulletinData = []"
  by (simp_all add: rule_docValidation_def rule_sicaf_def rule_cnpj_def rule_definitive_def
      rule_value_def rule_rmm_def rule_nd_def bulletinData_def blankData_def truthy_def
      collectCnpjs_def addCnpj_def Let_def)

lemma yearFromDay_examples:
  "yearFromDay 19723 = 2024" "yearFromDay 19722 = 2023"
  by code_simp+

lemma bulletin_years:
  "getFullYear hostUTC (dateParse hostUTC ''2024-01-01'') = Some 2024"
  "getFullYear hostBRT (dateParse hostBRT ''2024-01-01'') = Some 2023"
  by (simp_all add: hostUTC_def hostBRT_def isoDateParse_examples getFullYear_def
      msPerDay_def yearFromDay_examples)

lemma bulletin_contract:
  "rule_contract hostUTC bulletinData = []"
  "rule_contract hostBRT bulletinData =
     [\<lparr>res_id = ''contract-date'', title = Title_CommissionVsContract,
        res_description = Desc_Commission, status = FAIL,
        details = Det_CommissionBeforeContract 2023 2024,
        recommendation = Some Rec_CheckCommission, subItems = None\<rparr>]"
  by (simp_all add: rule_contract_def bulletinData_def blankData_def truthy_def bulletin_years)

text \<open>
  C9 at a bundle whose bulletin date is \<open>2024-01-01\<close> and whose contract starts in 2024.
  Both hosts parse the date to the same time value (midnight UTC). \<open>getFullYear\<close> reads it
  in local time: 2024 on the host in UTC, 2023 on the host in UTC-03:00. So the second host
  emits the FAIL finding \<open>contract-date\<close> and the first does not: the findings depend on the
  time zone of the host, not on the bundle alone.
\<close>

theorem host_time_zone_changes_findings:
  "dateParse hostUTC = dateParse hostBRT
   \<and> runAuditRules hostUTC bulletinData =
     [\<lparr>res_id = ''sicaf-missing'', title = Title_SicafValidation,
        res_description = Desc_SicafMissing, status = WARNING, details = Det_SicafMissing,
        recommendation = None, subItems = None\<rparr>,
      \<lparr>res_id = ''tr-definitive'', title = Title_ReceiptTerm,
        res_description = Desc_Definitive, status = FAIL, details = Det_NotDefinitive,
        recommendation = Some Rec_ReturnReceipt, subItems = None\<rparr>]
   \<and> runAuditRules hostBRT bulletinData =
     [\<lparr>res_id = ''sicaf-missing'', title = Title_SicafValidation,
        res_description = Desc_SicafMissing, status = WARNING, details = Det_SicafMissing,
        recommendation = None, subItems = None\<rparr>,
      \<lparr>res_id = ''tr-definitive'', title = Title_ReceiptTerm,
        res_description = Desc_Definitive, status = FAIL, details = Det_NotDefinitive,
        recommendation = Some Rec_ReturnReceipt, subItems = None\<rparr>,
      \<lparr>res_id = ''contract-date'', title = Title_CommissionVsContract,
        res_description = Desc_Commission, status = FAIL,
        details = Det_CommissionBeforeContract 2023 2024,
        recommendation = Some Rec_CheckCommission, subItems = None\<rparr>]
   \<and> runAuditRules hostUTC bulletinData \<noteq> runAuditRules hostBRT bulletinData"
  by (simp add: runAuditRules_def bulletin_rules bulletin_contract)
     (simp add: hostUTC_def hostBRT_def)

end
